theory Spec2Isabelle
  imports Main "HOL-Library.Char_ord" "HOL-Library.List_Lexorder" "HOL-Library.Multiset"
begin

section \<open>Python values, errors and string primitives\<close>

text \<open>
  The sources are Python 2. Strings are byte strings (\<open>str\<close>), modelled as \<open>string\<close>.
  A value stored in an object field or in a metadata dictionary is \<open>None\<close>, a string, a
  dictionary with string keys, or a list; dictionaries are association lists in iteration
  order.
\<close>

datatype pyval = PyNone | PyStr string | PyDict "(string \<times> pyval) list" | PyList "pyval list"

datatype error =
    CX string
  | CobblerException string
  | KeyError string
  | AttributeError
  | IOError string
  | OSError string
  | IndexError
  | TypeError
  | ValueError
  | UnboundLocalError
  | TemplateError

fun is_mapping :: "pyval \<Rightarrow> bool" where
  "is_mapping (PyDict d) = True"
| "is_mapping v = False"

text \<open>Sequencing of computations that may raise: the first error ends the computation.\<close>

definition bind_err :: "error + 'a \<Rightarrow> ('a \<Rightarrow> error + 'b) \<Rightarrow> error + 'b" where
  "bind_err m f = (case m of Inl e \<Rightarrow> Inl e | Inr x \<Rightarrow> f x)"

text \<open>\<open>s.startswith(p)\<close>, \<open>s.endswith(p)\<close> and \<open>s.find(p) != -1\<close>.\<close>

definition startswith :: "string \<Rightarrow> string \<Rightarrow> bool" where
  "startswith s p = (take (length p) s = p)"

definition endswith :: "string \<Rightarrow> string \<Rightarrow> bool" where
  "endswith s p = (length p \<le> length s \<and> drop (length s - length p) s = p)"

fun contains :: "string \<Rightarrow> string \<Rightarrow> bool" where
  "contains [] p = (p = [])"
| "contains (c # cs) p = (startswith (c # cs) p \<or> contains cs p)"

text \<open>
  \<open>s.replace(old, new)\<close>: the non-overlapping occurrences of \<open>old\<close>, leftmost first, are
  replaced; an empty \<open>old\<close> matches before every character and at the end.
\<close>

fun replace_ne :: "string \<Rightarrow> string \<Rightarrow> string \<Rightarrow> string" where
  "replace_ne old new [] = []"
| "replace_ne old new (c # cs) =
     (if old \<noteq> [] \<and> startswith (c # cs) old
      then new @ replace_ne old new (drop (length old) (c # cs))
      else c # replace_ne old new cs)"

definition replace :: "string \<Rightarrow> string \<Rightarrow> string \<Rightarrow> string" where
  "replace s old new =
     (if old = [] then new @ concat (map (\<lambda>c. c # new) s) else replace_ne old new s)"

text \<open>\<open>s.split(sep)\<close> for a one-character separator, and \<open>s.split(sep, n)\<close>.\<close>

fun split :: "char \<Rightarrow> string \<Rightarrow> string list" where
  "split sep [] = [[]]"
| "split sep (c # cs) =
     (if c = sep then [] # split sep cs
      else (case split sep cs of [] \<Rightarrow> [[c]] | l # ls \<Rightarrow> (c # l) # ls))"

fun split_max :: "nat \<Rightarrow> char \<Rightarrow> string \<Rightarrow> string list" where
  "split_max 0 sep s = [s]"
| "split_max (Suc n) sep [] = [[]]"
| "split_max (Suc n) sep (c # cs) =
     (if c = sep then [] # split_max n sep cs
      else (case split_max (Suc n) sep cs of [] \<Rightarrow> [[c]] | l # ls \<Rightarrow> (c # l) # ls))"

section \<open>More string primitives\<close>

abbreviation nl :: char where "nl \<equiv> CHR 0x0A"
abbreviation tab :: char where "tab \<equiv> CHR 0x09"
abbreviation dq :: char where "dq \<equiv> CHR 0x22"

text \<open>\<open>"%d" % n\<close> for a non-negative counter.\<close>

fun str_nat :: "nat \<Rightarrow> string" where
  "str_nat n = (if n < 10 then [''0123456789'' ! n]
                else str_nat (n div 10) @ [''0123456789'' ! (n mod 10)])"

declare str_nat.simps [simp del]

text \<open>\<open>s.upper()\<close> and \<open>s.lower()\<close> of a byte string (ASCII letters only).\<close>

definition upper_char :: "char \<Rightarrow> char" where
  "upper_char c =
     (case map_of (zip ''abcdefghijklmnopqrstuvwxyz'' ''ABCDEFGHIJKLMNOPQRSTUVWXYZ'') c of
        None \<Rightarrow> c | Some u \<Rightarrow> u)"

definition lower_char :: "char \<Rightarrow> char" where
  "lower_char c =
     (case map_of (zip ''ABCDEFGHIJKLMNOPQRSTUVWXYZ'' ''abcdefghijklmnopqrstuvwxyz'') c of
        None \<Rightarrow> c | Some l \<Rightarrow> l)"

definition upper :: "string \<Rightarrow> string" where
  "upper s = map upper_char s"

definition lower :: "string \<Rightarrow> string" where
  "lower s = map lower_char s"

text \<open>\<open>os.path.join(a, b)\<close>, \<open>os.path.basename(p)\<close> and \<open>os.path.dirname(p)\<close> (posixpath).\<close>

definition path_join :: "string \<Rightarrow> string \<Rightarrow> string" where
  "path_join a b =
     (if startswith b ''/'' then b
      else if a = [] \<or> endswith a ''/'' then a @ b
      else a @ ''/'' @ b)"

definition basename :: "string \<Rightarrow> string" where
  "basename p = rev (takeWhile (\<lambda>c. c \<noteq> CHR ''/'') (rev p))"

definition rstrip_slash :: "string \<Rightarrow> string" where
  "rstrip_slash s = rev (dropWhile (\<lambda>c. c = CHR ''/'') (rev s))"

definition dirname :: "string \<Rightarrow> string" where
  "dirname p =
     (let head = rev (dropWhile (\<lambda>c. c \<noteq> CHR ''/'') (rev p)) in
      if head \<noteq> [] \<and> (\<exists>c \<in> set head. c \<noteq> CHR ''/'') then rstrip_slash head else head)"

text \<open>Python's \<open>"%s" % v\<close> for an optional string.\<close>

definition fmt_opt :: "string option \<Rightarrow> string" where
  "fmt_opt v = (case v of None \<Rightarrow> ''None'' | Some s \<Rightarrow> s)"

text \<open>\<open>v is None or v == ""\<close>.\<close>

definition blank :: "string option \<Rightarrow> bool" where
  "blank v = (v = None \<or> v = Some [])"

section \<open>item_system.py: the System object\<close>

record System =
  name :: pyval
  profile :: pyval
  kernel_options :: pyval
  ks_meta :: pyval

definition clear :: "System \<Rightarrow> System" where
  "clear self = self\<lparr>name := PyNone, profile := PyNone,
                      kernel_options := PyStr '''', ks_meta := PyStr ''''\<rparr>"

text \<open>\<open>seed_data[k]\<close> raises \<open>KeyError\<close> on a missing key.\<close>

definition getitem :: "(string \<times> pyval) list \<Rightarrow> string \<Rightarrow> error + pyval" where
  "getitem d k = (case map_of d k of None \<Rightarrow> Inl (KeyError k) | Some v \<Rightarrow> Inr v)"

text \<open>\<open>d[k]\<close> for a key that is known to be there (\<open>None\<close> stands in otherwise).\<close>

definition dict_get_val :: "(string \<times> pyval) list \<Rightarrow> string \<Rightarrow> pyval" where
  "dict_get_val d k = (case map_of d k of None \<Rightarrow> PyNone | Some v \<Rightarrow> v)"

definition from_datastruct :: "(string \<times> pyval) list \<Rightarrow> System \<Rightarrow> error + System" where
  "from_datastruct seed_data self =
     bind_err (getitem seed_data ''name'') (\<lambda>n.
     bind_err (getitem seed_data ''profile'') (\<lambda>p.
     bind_err (getitem seed_data ''kernel_options'') (\<lambda>ko.
     bind_err (getitem seed_data ''ks_meta'') (\<lambda>km.
       Inr (self\<lparr>name := n, profile := p, kernel_options := ko, ks_meta := km\<rparr>)))))"

definition to_datastruct :: "System \<Rightarrow> (string \<times> pyval) list" where
  "to_datastruct self =
     [(''name'', name self), (''profile'', profile self),
      (''kernel_options'', kernel_options self), (''ks_meta'', ks_meta self)]"

text \<open>
  \<open>utils.find_system_identifier\<close> is not part of the sources at hand; it is a parameter
  of \<open>set_name\<close>. It returns \<open>None\<close> or a string, and \<open>not new_name\<close> holds for \<open>None\<close> and
  for the empty string.
\<close>

definition falsy :: "string option \<Rightarrow> bool" where
  "falsy r = (case r of None \<Rightarrow> True | Some s \<Rightarrow> s = [])"

definition set_name :: "(string \<Rightarrow> string option) \<Rightarrow> string \<Rightarrow> System \<Rightarrow> error + (System \<times> bool)" where
  "set_name find_system_identifier n self =
     (if n = ''default'' then Inr (self\<lparr>name := PyStr ''default''\<rparr>, True)
      else let new_name = find_system_identifier n in
        if falsy new_name then Inl (CobblerException ''bad_sys_name'')
        else Inr (self\<lparr>name := PyStr n\<rparr>, True))"

definition is_valid :: "System \<Rightarrow> bool" where
  "is_valid self = (if name self = PyNone then False
                    else if profile self = PyNone then False else True)"

section \<open>action_sync.py: files and the template renderer\<close>

text \<open>
  The files the synchronisation reads and writes are a map from path to content, beside
  the set of the directories that exist; every read, write, removal and directory creation
  is recorded in a trace, in order. An exception does not undo earlier writes, so every
  operation returns its result together with the world it leaves behind.

  What the model leaves out: the \<open>print\<close> statements; the translation of messages (the
  wrapper \<open>_\<close> is the identity); failures of the operating system other than a missing
  file on reading (opening a file for writing, creating a directory and unlinking a file
  that is there succeed); the parent directories that \<open>os.makedirs\<close> creates on the way
  (only the directory asked for is recorded).
\<close>

datatype io_event =
    Opened string | Written string | MakeDirs string | Unlinked string
  | Linked string string | Symlinked string string

text \<open>
  The tree reconciler lists directories, which a map from path to content cannot give. It
  sees the web directory and the boot directory as listings: a directory is the list of its
  entries, by name, and an entry is a regular file or a directory. The world holds the two
  listings beside the files by path; the model does not tie the two views together.
\<close>

datatype node = File | Dir "(string \<times> node) list"

record world =
  files :: "string \<Rightarrow> string option"
  dirs :: "string set"
  trace :: "io_event list"
  web_tree :: "(string \<times> node) list"
  tftp_tree :: "(string \<times> node) list"

type_synonym 'a io = "world \<Rightarrow> (error + 'a) \<times> world"

definition io_bind :: "'a io \<Rightarrow> ('a \<Rightarrow> 'b io) \<Rightarrow> 'b io" where
  "io_bind m f w = (case m w of (Inl e, w') \<Rightarrow> (Inl e, w') | (Inr x, w') \<Rightarrow> f x w')"

definition io_return :: "'a \<Rightarrow> 'a io" where
  "io_return x w = (Inr x, w)"

text \<open>\<open>open(path).read()\<close>: a missing file raises \<open>IOError\<close>.\<close>

definition read_file :: "string \<Rightarrow> string io" where
  "read_file path w =
     (case files w path of
        None \<Rightarrow> (Inl (IOError path), w)
      | Some d \<Rightarrow> (Inr d, w\<lparr>trace := trace w @ [Opened path]\<rparr>))"

text \<open>\<open>open(path, "w").write(data)\<close>, and \<open>self.mkdir(path)\<close> (an existing directory is no error).\<close>

definition write_file :: "string \<Rightarrow> string \<Rightarrow> world \<Rightarrow> world" where
  "write_file path d w = w\<lparr>files := (files w)(path \<mapsto> d), trace := trace w @ [Written path]\<rparr>"

definition mkdir :: "string \<Rightarrow> world \<Rightarrow> world" where
  "mkdir path w = w\<lparr>dirs := insert path (dirs w), trace := trace w @ [MakeDirs path]\<rparr>"

text \<open>\<open>os.path.exists(path)\<close>.\<close>

definition path_exists :: "world \<Rightarrow> string \<Rightarrow> bool" where
  "path_exists w path = (files w path \<noteq> None \<or> path \<in> dirs w)"

text \<open>A loop over a list whose body may raise: the first error ends it.\<close>

fun io_iter :: "('a \<Rightarrow> unit io) \<Rightarrow> 'a list \<Rightarrow> unit io" where
  "io_iter f [] w = (Inr (), w)"
| "io_iter f (x # xs) w =
     (case f x w of (Inl e, w') \<Rightarrow> (Inl e, w') | (Inr u, w') \<Rightarrow> io_iter f xs w')"

text \<open>\<open>self.rmfile(path)\<close>: a file that does not exist is no error.\<close>

definition rmfile :: "string \<Rightarrow> world \<Rightarrow> world" where
  "rmfile path w =
     (case files w path of
        None \<Rightarrow> w
      | Some d \<Rightarrow> w\<lparr>files := (files w)(path := None), trace := trace w @ [Unlinked path]\<rparr>)"

text \<open>
  A metadata dictionary and the snippet cache are association lists in iteration order.
  The templating engine (Cheetah) is a parameter: it takes the source and the search list
  and returns the evaluated text, or \<open>None\<close> when it raises.
\<close>

type_synonym metadata = "(string \<times> pyval) list"
type_synonym engine = "string \<Rightarrow> metadata \<Rightarrow> string option"

text \<open>Pass 1: \<open>data.replace("TEMPLATE::", "$")\<close>.\<close>

definition legacy_rewrite :: "string \<Rightarrow> string" where
  "legacy_rewrite data = replace data ''TEMPLATE::'' ''$''"

text \<open>Pass 2: the inner loop over the snippet cache for one line, and the loop over lines.\<close>

definition inline_line :: "(string \<times> string) list \<Rightarrow> string \<Rightarrow> string" where
  "inline_line snippet_cache line =
     foldl (\<lambda>l (x, body). if \<not> startswith l ''#'' then replace l (''SNIPPET::'' @ x) body else l)
       line snippet_cache"

definition inline_snippets :: "(string \<times> string) list \<Rightarrow> string \<Rightarrow> string" where
  "inline_snippets snippet_cache data =
     foldl (\<lambda>newdata line. newdata @ [nl] @ inline_line snippet_cache line) [] (split nl data)"

text \<open>Pass 3: the NFS rewrite of one line, the loop over lines, and the guard on \<open>tree\<close>.\<close>

definition nfs_line :: "string \<Rightarrow> string \<Rightarrow> error + string" where
  "nfs_line tree line =
     (if contains line ''--url'' \<and> contains line ''url '' then
        (case split_max 2 CHR '':'' (drop 6 tree) of
           [server, dir] \<Rightarrow>
             Inr (''nfs --server '' @ server @ '' --dir '' @ dir @ [nl] @ ''#url --url='' @ tree)
         | _ \<Rightarrow> Inl (CX (''Invalid syntax for NFS path given during import: '' @ tree)))
      else Inr line)"

fun nfs_lines :: "string \<Rightarrow> string list \<Rightarrow> string \<Rightarrow> error + string" where
  "nfs_lines tree [] newdata = Inr newdata"
| "nfs_lines tree (line # rest) newdata =
     bind_err (nfs_line tree line) (\<lambda>l. nfs_lines tree rest (newdata @ l @ [nl]))"

definition nfs_rewrite :: "metadata \<Rightarrow> string \<Rightarrow> error + string" where
  "nfs_rewrite md data =
     (case map_of md ''tree'' of
        None \<Rightarrow> Inr data
      | Some (PyStr tree) \<Rightarrow>
          if startswith tree ''nfs://'' then nfs_lines tree (split nl data) [] else Inr data
      | Some v \<Rightarrow> Inl AttributeError)"

text \<open>Pass 5: \<open>@@key@@\<close> is replaced for every key whose value is a string.\<close>

definition literal_subst :: "metadata \<Rightarrow> string \<Rightarrow> string" where
  "literal_subst md data_out =
     foldl (\<lambda>d (x, v). case v of PyStr s \<Rightarrow> replace d (''@@'' @ x @ ''@@'') s | _ \<Rightarrow> d)
       data_out md"

definition apply_template ::
  "engine \<Rightarrow> (string \<times> string) list \<Rightarrow> string \<Rightarrow> metadata \<Rightarrow> string option \<Rightarrow> string io" where
  "apply_template cheetah snippet_cache data_input md out_path w =
     (let data = legacy_rewrite data_input;
          data = inline_snippets snippet_cache data
      in case nfs_rewrite md data of
           Inl e \<Rightarrow> (Inl e, w)
         | Inr data' \<Rightarrow>
            (case cheetah (''#errorCatcher Echo'' @ [nl] @ data') md of
               None \<Rightarrow> (Inl TemplateError, w)
             | Some t \<Rightarrow>
                 (let data_out = literal_subst md t
                  in (Inr data_out,
                      (case out_path of
                         None \<Rightarrow> w
                       | Some p \<Rightarrow> write_file p data_out (mkdir (dirname p) w))))))"

section \<open>action_sync.py: the objects of one run\<close>

text \<open>
  The objects the synchronisation reads. An interface field is \<open>None\<close> or a string.
  The interfaces of a system are a dictionary, listed in iteration order.
\<close>

record Interface =
  mac_address :: "string option"
  ip_address :: "string option"
  hostname :: "string option"
  dhcp_tag :: string

record Distro =
  distro_name :: string
  arch :: string
  kernel :: string
  initrd :: string
  breed :: "string option"

record Profile =
  profile_name :: string
  distro :: string

record SyncSystem =
  system_name :: string
  system_profile :: string
  interfaces :: "(string \<times> Interface) list"
  netboot_enabled :: bool
  pxe_supported :: bool

record Settings =
  tftpboot :: string
  webdir :: string
  server :: string
  next_server :: string
  manage_dhcp :: bool
  manage_dhcp_mode :: string
  dhcpd_conf :: string
  dnsmasq_conf :: string
  bootloaders :: "(string \<times> string) list"

record BootSync =
  distros :: "Distro list"
  profiles :: "Profile list"
  systems :: "SyncSystem list"
  settings :: Settings
  snippet_cache :: "(string \<times> string) list"

text \<open>
  Modelled from the spec: \<open>get_conceptual_parent\<close> and the collections' \<open>find\<close> are not
  part of the sources at hand. The spec gives the parent link as a reference by name,
  resolved by lookup-by-name in the loaded collection; a name that matches no object
  gives \<open>None\<close>.
\<close>

definition find_profile :: "Profile list \<Rightarrow> string \<Rightarrow> Profile option" where
  "find_profile ps n = find (\<lambda>p. profile_name p = n) ps"

definition find_distro :: "Distro list \<Rightarrow> string \<Rightarrow> Distro option" where
  "find_distro ds n = find (\<lambda>d. distro_name d = n) ds"

definition find_system :: "SyncSystem list \<Rightarrow> string \<Rightarrow> SyncSystem option" where
  "find_system ss n = find (\<lambda>s. system_name s = n) ss"

definition system_parent :: "BootSync \<Rightarrow> SyncSystem \<Rightarrow> Profile option" where
  "system_parent self s = find_profile (profiles self) (system_profile s)"

definition profile_parent :: "BootSync \<Rightarrow> Profile \<Rightarrow> Distro option" where
  "profile_parent self p = find_distro (distros self) (distro p)"

text \<open>A loop whose body may raise: the first error ends it.\<close>

fun fold_err :: "('a \<Rightarrow> 's \<Rightarrow> error + 's) \<Rightarrow> 'a list \<Rightarrow> 's \<Rightarrow> error + 's" where
  "fold_err f [] st = Inr st"
| "fold_err f (x # xs) st = bind_err (f x st) (fold_err f xs)"

text \<open>A dictionary as an association list: \<open>d[k] = v\<close>, and \<open>d.get(k, "")\<close> for strings.\<close>

fun dict_set :: "(string \<times> 'v) list \<Rightarrow> string \<Rightarrow> 'v \<Rightarrow> (string \<times> 'v) list" where
  "dict_set [] k v = [(k, v)]"
| "dict_set ((k', v') # d) k v = (if k' = k then (k, v) # d else (k', v') # dict_set d k v)"

definition dict_get :: "(string \<times> string) list \<Rightarrow> string \<Rightarrow> string" where
  "dict_get d k = (case map_of d k of None \<Rightarrow> [] | Some v \<Rightarrow> v)"

section \<open>action_sync.py: DHCP reservations and the host databases\<close>

text \<open>
  The text of one reservation, for an interface whose MAC is not empty. \<open>distro.arch\<close>
  raises \<open>AttributeError\<close> when the profile has no distro; the dnsmasq branch reads it
  only when the interface has an IP address.
\<close>

definition dhcp_systxt ::
  "string \<Rightarrow> string \<Rightarrow> Distro option \<Rightarrow> nat \<Rightarrow> string \<Rightarrow> string option \<Rightarrow> string option
     \<Rightarrow> error + string" where
  "dhcp_systxt mode elilo d counter mac ip host =
     (if mode = ''isc'' then
        (case d of
           None \<Rightarrow> Inl AttributeError
         | Some dist \<Rightarrow>
            Inr ((if \<not> blank host then [nl] @ ''host '' @ fmt_opt host @ '' {'' @ [nl]
                  else [nl] @ ''host generic'' @ str_nat counter @ '' {'' @ [nl])
                 @ (if arch dist = ''ia64''
                    then ''    filename '' @ [dq] @ ''/'' @ elilo @ [dq] @ '';'' @ [nl] else [])
                 @ ''    hardware ethernet '' @ mac @ '';'' @ [nl]
                 @ (if \<not> blank ip then ''    fixed-address '' @ fmt_opt ip @ '';'' @ [nl] else [])
                 @ ''}'' @ [nl]))
      else if \<not> blank ip then
        (case d of
           None \<Rightarrow> Inl AttributeError
         | Some dist \<Rightarrow>
            Inr (if lower (arch dist) = ''ia64''
                 then ''dhcp-host=net:ia64,'' @ fmt_opt ip @ [nl] else []))
      else Inr [])"

text \<open>
  The body of the inner loop: the state is the counter and the dictionary
  \<open>system_definitions\<close> from tag to text.
\<close>

definition dhcp_interface ::
  "string \<Rightarrow> string \<Rightarrow> Distro option \<Rightarrow> Interface \<Rightarrow> nat \<times> (string \<times> string) list
     \<Rightarrow> error + nat \<times> (string \<times> string) list" where
  "dhcp_interface mode elilo d interface st =
     (case st of (counter, system_definitions) \<Rightarrow>
      if blank (mac_address interface) then Inr (counter, system_definitions)
      else
        bind_err (dhcp_systxt mode elilo d (counter + 1) (fmt_opt (mac_address interface))
                    (ip_address interface) (hostname interface)) (\<lambda>systxt.
          let tag = (if dhcp_tag interface = [] then ''default'' else dhcp_tag interface);
              defs = (if map_of system_definitions tag = None
                      then dict_set system_definitions tag [] else system_definitions)
          in Inr (counter + 1, dict_set defs tag (dict_get defs tag @ systxt))))"

definition dhcp_system ::
  "BootSync \<Rightarrow> string \<Rightarrow> string \<Rightarrow> SyncSystem \<Rightarrow> nat \<times> (string \<times> string) list
     \<Rightarrow> error + nat \<times> (string \<times> string) list" where
  "dhcp_system self mode elilo s st =
     (case system_parent self s of
        None \<Rightarrow> Inl AttributeError
      | Some p \<Rightarrow>
          fold_err (\<lambda>ni. dhcp_interface mode elilo (profile_parent self p) (snd ni))
            (interfaces s) st)"

definition dhcp_system_definitions ::
  "BootSync \<Rightarrow> string \<Rightarrow> string \<Rightarrow> error + nat \<times> (string \<times> string) list" where
  "dhcp_system_definitions self mode elilo =
     fold_err (dhcp_system self mode elilo) (systems self) (0, [])"

text \<open>
  \<open>write_dhcp_file\<close>: the template is read, the reservations are collected per tag, and
  the template is rendered to the settings file. The date comes from the clock and is a
  parameter.
\<close>

definition dhcp_metadata :: "Settings \<Rightarrow> string \<Rightarrow> string \<Rightarrow> (string \<times> string) list \<Rightarrow> metadata" where
  "dhcp_metadata st date elilo system_definitions =
     [(''insert_cobbler_system_definitions'', PyStr (dict_get system_definitions ''default'')),
      (''date'', PyStr date),
      (''cobbler_server'', PyStr (server st)),
      (''next_server'', PyStr (next_server st)),
      (''elilo'', PyStr elilo)]
     @ map (\<lambda>(x, txt). (''insert_cobbler_system_definitions_'' @ x, PyStr txt))
         (filter (\<lambda>(x, txt). x \<noteq> ''default'') system_definitions)"

definition write_dhcp_file :: "engine \<Rightarrow> string \<Rightarrow> BootSync \<Rightarrow> unit io" where
  "write_dhcp_file cheetah date self w =
     (let mode = lower (manage_dhcp_mode (settings self));
          settings_file = (if mode = ''dnsmasq'' then dnsmasq_conf (settings self)
                           else dhcpd_conf (settings self));
          template_file = (if mode = ''dnsmasq'' then ''/etc/cobbler/dnsmasq.template''
                           else ''/etc/cobbler/dhcp.template'')
      in case read_file template_file w of
           (Inl e, w1) \<Rightarrow> (Inl (CX (''error writing template to file: '' @ template_file)), w1)
         | (Inr template_data, w1) \<Rightarrow>
            (case map_of (bootloaders (settings self)) ''ia64'' of
               None \<Rightarrow> (Inl (KeyError ''ia64''), w1)
             | Some loader \<Rightarrow>
                (case dhcp_system_definitions self mode (basename loader) of
                   Inl e \<Rightarrow> (Inl e, w1)
                 | Inr (counter, system_definitions) \<Rightarrow>
                    (case apply_template cheetah (snippet_cache self) template_data
                            (dhcp_metadata (settings self) date (basename loader) system_definitions)
                            (Some settings_file) w1 of
                       (Inl e, w2) \<Rightarrow> (Inl e, w2)
                     | (Inr out, w2) \<Rightarrow> (Inr (), w2)))))"

text \<open>
  \<open>regen_ethers\<close> and \<open>regen_hosts\<close>: the file handle is the list of the strings written
  to it so far; the file holds their concatenation.
\<close>

definition ethers_interface :: "Interface \<Rightarrow> string list \<Rightarrow> string list" where
  "ethers_interface interface fh =
     (if blank (mac_address interface) then fh
      else if \<not> blank (ip_address interface)
      then fh @ [upper (fmt_opt (mac_address interface)) @ [tab] @ fmt_opt (ip_address interface) @ [nl]]
      else fh)"

definition regen_ethers_writes :: "SyncSystem list \<Rightarrow> string list" where
  "regen_ethers_writes ss =
     foldl (\<lambda>fh s. foldl (\<lambda>fh ni. ethers_interface (snd ni) fh) fh (interfaces s)) [] ss"

definition regen_ethers :: "BootSync \<Rightarrow> world \<Rightarrow> world" where
  "regen_ethers self w = write_file ''/etc/ethers'' (concat (regen_ethers_writes (systems self))) w"

definition hosts_interface :: "Interface \<Rightarrow> string list \<Rightarrow> string list" where
  "hosts_interface interface fh =
     (if blank (mac_address interface) then fh
      else if \<not> blank (hostname interface) \<and> \<not> blank (ip_address interface)
      then fh @ [fmt_opt (ip_address interface) @ [tab] @ fmt_opt (hostname interface) @ [nl]]
      else fh)"

definition regen_hosts_writes :: "SyncSystem list \<Rightarrow> string list" where
  "regen_hosts_writes ss =
     foldl (\<lambda>fh s. foldl (\<lambda>fh ni. hosts_interface (snd ni) fh) fh (interfaces s)) [] ss"

definition regen_hosts :: "BootSync \<Rightarrow> world \<Rightarrow> world" where
  "regen_hosts self w =
     write_file ''/var/lib/cobbler/cobbler_hosts'' (concat (regen_hosts_writes (systems self))) w"

section \<open>action_sync.py: the tree reconciler\<close>

text \<open>
  \<open>clean_trees\<close> works on the listing of the web directory and of the boot directory
  (\<open>node\<close>, above). The two roots are taken to be different directories, neither inside
  the other.
\<close>

fun isfile :: "(string \<times> node) list \<Rightarrow> string \<Rightarrow> bool" where
  "isfile es x = (case map_of es x of Some File \<Rightarrow> True | _ \<Rightarrow> False)"

fun isdir :: "(string \<times> node) list \<Rightarrow> string \<Rightarrow> bool" where
  "isdir es x = (case map_of es x of Some (Dir cs) \<Rightarrow> True | _ \<Rightarrow> False)"

definition remove_entry :: "string \<Rightarrow> (string \<times> node) list \<Rightarrow> (string \<times> node) list" where
  "remove_entry x es = filter (\<lambda>e. fst e \<noteq> x) es"

text \<open>
  \<open>self.rmfile(path)\<close> for the entry \<open>x\<close> of the directory \<open>root\<close>: \<open>os.unlink\<close> removes a
  file, a missing entry is no error, and a directory makes it raise.
\<close>

definition tree_rmfile :: "string \<Rightarrow> string \<Rightarrow> (string \<times> node) list \<Rightarrow> error + (string \<times> node) list" where
  "tree_rmfile root x es =
     (case map_of es x of
        None \<Rightarrow> Inr es
      | Some File \<Rightarrow> Inr (remove_entry x es)
      | Some (Dir cs) \<Rightarrow> Inl (CX (''Error deleting '' @ path_join root x)))"

text \<open>\<open>self.rmtree(path)\<close>: a file is unlinked, anything else goes to \<open>shutil.rmtree\<close>, which ignores errors.\<close>

definition tree_rmtree :: "string \<Rightarrow> string \<Rightarrow> (string \<times> node) list \<Rightarrow> error + (string \<times> node) list" where
  "tree_rmtree root x es =
     (if isfile es x then tree_rmfile root x es else Inr (remove_entry x es))"

text \<open>\<open>glob.glob(path + "/*")\<close>: the entries of the directory whose name does not start with a dot.\<close>

definition glob_star :: "(string \<times> node) list \<Rightarrow> string list" where
  "glob_star cs = filter (\<lambda>n. \<not> startswith n ''.'') (map fst cs)"

definition replace_entry :: "string \<Rightarrow> node \<Rightarrow> (string \<times> node) list \<Rightarrow> (string \<times> node) list" where
  "replace_entry x v es = map (\<lambda>e. if fst e = x then (x, v) else e) es"

definition tree_rmtree_contents ::
  "string \<Rightarrow> string \<Rightarrow> (string \<times> node) list \<Rightarrow> error + (string \<times> node) list" where
  "tree_rmtree_contents root x es =
     (case map_of es x of
        Some (Dir cs) \<Rightarrow>
          bind_err (fold_err (\<lambda>c. tree_rmtree (path_join root x) c) (glob_star cs) cs)
            (\<lambda>cs'. Inr (replace_entry x (Dir cs') es))
      | _ \<Rightarrow> Inr es)"

definition known_dirs :: "string list" where
  "known_dirs = [''webui'', ''localmirror'', ''repo_mirror'', ''ks_mirror'', ''kickstarts'',
                 ''kickstarts_sys'', ''distros'', ''images'', ''systems'', ''profiles'', ''links'',
                 ''repo_profile'', ''repo_system'']"

definition purged_dirs :: "string list" where
  "purged_dirs = [''kickstarts'', ''kickstarts_sys'', ''images'', ''systems'', ''distros'',
                  ''profiles'', ''repo_profile'', ''repo_system'']"

text \<open>The body of the loop over \<open>os.listdir(webdir)\<close>.\<close>

definition clean_entry :: "string \<Rightarrow> string \<Rightarrow> (string \<times> node) list \<Rightarrow> error + (string \<times> node) list" where
  "clean_entry root x es =
     bind_err (if isfile es x \<and> \<not> endswith x ''.py'' then tree_rmfile root x es else Inr es) (\<lambda>es1.
       if isdir es1 x then
         bind_err (if x \<notin> set known_dirs then tree_rmtree root x es1 else Inr es1) (\<lambda>es2.
           if x \<in> set purged_dirs then tree_rmtree_contents root x es2 else Inr es2)
       else Inr es1)"

definition clean_trees ::
  "Settings \<Rightarrow> (string \<times> node) list \<times> (string \<times> node) list
     \<Rightarrow> error + (string \<times> node) list \<times> (string \<times> node) list" where
  "clean_trees st trees =
     (case trees of (web, tftp) \<Rightarrow>
        bind_err (fold_err (clean_entry (webdir st)) (map fst web) web) (\<lambda>web'.
        bind_err (tree_rmtree_contents (tftpboot st) ''pxelinux.cfg'' tftp) (\<lambda>tftp1.
        bind_err (tree_rmtree_contents (tftpboot st) ''images'' tftp1) (\<lambda>tftp2.
          Inr (web', tftp2)))))"

section \<open>action_sync.py: collaborators outside the sources at hand\<close>

text \<open>
  The functions of \<open>utils\<close>, the YAML writer and the triggers are parameters, collected
  in one record:
  \<^item> \<open>cheetah\<close>: the templating engine;
  \<^item> \<open>blender\<close>: \<open>utils.blender(api, remove_hashes, obj, cache)\<close>, which may raise;
  \<^item> \<open>hash_to_string\<close>, \<open>find_kickstart\<close>, \<open>find_kernel\<close>, \<open>find_initrd\<close>,
    \<open>get_config_filename\<close>: the functions of \<open>utils\<close> of these names;
  \<^item> \<open>repr_dict\<close>, \<open>repr_list\<close>: Python's \<open>"%s" % v\<close> for a dictionary, for a list;
  \<^item> \<open>yaml_dump\<close>, \<open>yaml_dump_names\<close>: \<open>yaml.dump\<close> of a mapping, of a list of names;
  \<^item> \<open>repo_stanza\<close>, \<open>config_stanza\<close>, \<open>kickstart_signal\<close>: the three generators
    \<open>generate_repo_stanza\<close>, \<open>generate_config_stanza\<close> and \<open>generate_kickstart_signal\<close>,
    which read files and write none;
  \<^item> \<open>pre_triggers\<close>, \<open>post_triggers\<close>: \<open>utils.run_triggers\<close> on the pre- and on the
    post-triggers;
  \<^item> \<open>asctime\<close>: the date the DHCP template is rendered with.
\<close>

datatype obj = DistroObj Distro | ProfileObj Profile | SystemObj SyncSystem

record externals =
  cheetah :: engine
  blender :: "bool \<Rightarrow> obj \<Rightarrow> error + metadata"
  hash_to_string :: "pyval \<Rightarrow> string"
  find_kickstart :: "pyval \<Rightarrow> string option"
  find_kernel :: "string \<Rightarrow> string option"
  find_initrd :: "string \<Rightarrow> string option"
  get_config_filename :: "SyncSystem \<Rightarrow> string \<Rightarrow> string"
  repr_dict :: "(string \<times> pyval) list \<Rightarrow> string"
  repr_list :: "pyval list \<Rightarrow> string"
  yaml_dump :: "metadata \<Rightarrow> string"
  yaml_dump_names :: "string list \<Rightarrow> string"
  repo_stanza :: "Profile \<Rightarrow> world \<Rightarrow> error + string"
  config_stanza :: "Profile \<Rightarrow> world \<Rightarrow> error + string"
  kickstart_signal :: "Profile \<Rightarrow> SyncSystem option \<Rightarrow> world \<Rightarrow> error + string"
  pre_triggers :: "unit io"
  post_triggers :: "unit io"
  asctime :: string

text \<open>\<open>"%s" % v\<close>.\<close>

definition py_str :: "externals \<Rightarrow> pyval \<Rightarrow> string" where
  "py_str ext v =
     (case v of PyNone \<Rightarrow> ''None'' | PyStr s \<Rightarrow> s | PyDict d \<Rightarrow> repr_dict ext d
              | PyList xs \<Rightarrow> repr_list ext xs)"

section \<open>action_sync.py: boot-loader configuration and the boot menu\<close>

text \<open>The kickstart part of the kernel command line in \<open>write_pxe_file\<close>.\<close>

definition pxe_kickstart ::
  "externals \<Rightarrow> SyncSystem option \<Rightarrow> Profile \<Rightarrow> Distro \<Rightarrow> metadata \<Rightarrow> pyval \<Rightarrow> string
     \<Rightarrow> error + string" where
  "pxe_kickstart ext system p dist blended kickstart_path append_line =
     (case kickstart_path of
        PyNone \<Rightarrow> Inr append_line
      | PyDict x \<Rightarrow> Inl AttributeError
      | PyList x \<Rightarrow> Inl AttributeError
      | PyStr ks \<Rightarrow>
          if ks = [] then Inr append_line
          else
            bind_err
              (if system \<noteq> None \<and> startswith ks ''/'' then
                 bind_err (getitem blended ''server'') (\<lambda>srv.
                   Inr (''http://'' @ py_str ext srv @ ''/cblr/kickstarts_sys/''
                        @ (case system of None \<Rightarrow> [] | Some sy \<Rightarrow> system_name sy) @ ''/ks.cfg''))
               else if startswith ks ''/'' \<or> contains ks ''/cobbler/kickstarts/'' then
                 bind_err (getitem blended ''server'') (\<lambda>srv.
                   Inr (''http://'' @ py_str ext srv @ ''/cblr/kickstarts/''
                        @ profile_name p @ ''/ks.cfg''))
               else Inr ks)
              (\<lambda>ks'.
                 Inr (if breed dist = None \<or> breed dist = Some ''redhat''
                      then append_line @ '' ks='' @ ks'
                      else if breed dist = Some ''suse''
                      then append_line @ '' autoyast='' @ ks'
                      else if breed dist = Some ''debian''
                      then replace (append_line @ '' auto=true url='' @ ks') ''ksdevice'' ''interface''
                      else append_line)))"

text \<open>
  Everything \<open>write_pxe_file\<close> computes before it opens the template: the variables for
  the template, or the first exception.
\<close>

definition pxe_metadata ::
  "externals \<Rightarrow> SyncSystem option \<Rightarrow> Profile \<Rightarrow> Distro option \<Rightarrow> bool \<Rightarrow> error + metadata" where
  "pxe_metadata ext system p d is_ia64 =
     (case d of
        None \<Rightarrow> Inl AttributeError
      | Some dist \<Rightarrow>
         (let kernel_path = path_join (path_join ''/images'' (distro_name dist)) (basename (kernel dist));
              initrd_path = path_join (path_join ''/images'' (distro_name dist)) (basename (initrd dist))
          in
          bind_err (blender ext True (ProfileObj p)) (\<lambda>pb.
          bind_err (getitem pb ''kickstart'') (\<lambda>kickstart_path.
          bind_err (blender ext True (case system of None \<Rightarrow> ProfileObj p | Some sy \<Rightarrow> SystemObj sy))
            (\<lambda>blended.
          bind_err (getitem blended ''kernel_options'') (\<lambda>kopts.
          bind_err (pxe_kickstart ext system p dist blended kickstart_path
                      (''append '' @ hash_to_string ext kopts
                       @ (if \<not> is_ia64 then '' initrd='' @ initrd_path else [])))
            (\<lambda>append_line.
              Inr [(''menu_label'',
                      PyStr (if \<not> is_ia64 \<and> system = None
                             then ''MENU LABEL '' @ profile_name p else [])),
                   (''profile_name'', PyStr (profile_name p)),
                   (''kernel_path'', PyStr kernel_path),
                   (''initrd_path'', PyStr initrd_path),
                   (''append_line'', PyStr append_line)])))))))"

definition pxe_template :: "SyncSystem option \<Rightarrow> bool \<Rightarrow> string" where
  "pxe_template system is_ia64 =
     (if system = None then ''/etc/cobbler/pxeprofile.template''
      else if \<not> is_ia64 then ''/etc/cobbler/pxesystem.template''
      else ''/etc/cobbler/pxesystem_ia64.template'')"

definition write_pxe_file ::
  "externals \<Rightarrow> BootSync \<Rightarrow> string option \<Rightarrow> SyncSystem option \<Rightarrow> Profile \<Rightarrow> Distro option \<Rightarrow> bool
     \<Rightarrow> (string option) io" where
  "write_pxe_file ext self filename system p d is_ia64 w =
     (if (case system of None \<Rightarrow> False | Some sy \<Rightarrow> \<not> netboot_enabled sy) then (Inr None, w)
      else
        (case pxe_metadata ext system p d is_ia64 of
           Inl e \<Rightarrow> (Inl e, w)
         | Inr md \<Rightarrow>
            (case read_file (pxe_template system is_ia64) w of
               (Inl e, w1) \<Rightarrow> (Inl e, w1)
             | (Inr template_data, w1) \<Rightarrow>
                (case apply_template (cheetah ext) (snippet_cache self) template_data md None w1 of
                   (Inl e, w2) \<Rightarrow> (Inl e, w2)
                 | (Inr buffer, w2) \<Rightarrow>
                    (Inr (Some buffer),
                     (case filename of None \<Rightarrow> w2 | Some f \<Rightarrow> write_file f buffer w2))))))"

text \<open>The loop of \<open>make_pxe_menu\<close> over the sorted profiles; the state is \<open>pxe_menu_items\<close>.\<close>

fun menu_items :: "externals \<Rightarrow> BootSync \<Rightarrow> Profile list \<Rightarrow> string \<Rightarrow> string io" where
  "menu_items ext self [] pxe_menu_items w = (Inr pxe_menu_items, w)"
| "menu_items ext self (p # ps) pxe_menu_items w =
     (case write_pxe_file ext self None None p (profile_parent self p) False w of
        (Inl e, w') \<Rightarrow> (Inl e, w')
      | (Inr contents, w') \<Rightarrow>
          menu_items ext self ps
            (case contents of None \<Rightarrow> pxe_menu_items | Some c \<Rightarrow> pxe_menu_items @ c @ [nl]) w')"

text \<open>
  \<open>profile_list.sort(sort_name)\<close> compares the names as byte strings and is stable, as
  \<open>sort_key\<close> is.
\<close>

definition make_pxe_menu :: "externals \<Rightarrow> BootSync \<Rightarrow> unit io" where
  "make_pxe_menu ext self w =
     (case find_system (systems self) ''default'' of
        Some default_system \<Rightarrow> (Inr (), w)
      | None \<Rightarrow>
         (case read_file ''/etc/cobbler/pxedefault.template'' w of
            (Inl e, w1) \<Rightarrow> (Inl e, w1)
          | (Inr template_data, w1) \<Rightarrow>
             (case menu_items ext self (sort_key profile_name (profiles self)) [] w1 of
                (Inl e, w2) \<Rightarrow> (Inl e, w2)
              | (Inr pxe_menu_items, w2) \<Rightarrow>
                 (case apply_template (cheetah ext) (snippet_cache self) template_data
                         [(''pxe_menu_items'', PyStr pxe_menu_items)]
                         (Some (path_join (path_join (tftpboot (settings self)) ''pxelinux.cfg'')
                                  ''default'')) w2 of
                    (Inl e, w3) \<Rightarrow> (Inl e, w3)
                  | (Inr out, w3) \<Rightarrow> (Inr (), w3)))))"

section \<open>action_sync.py: kickstart validation\<close>

text \<open>
  \<open>ksmeta = meta["ks_meta"]; del meta["ks_meta"]; meta.update(ksmeta)\<close>. The update takes
  a mapping, or a sequence whose elements are sequences of two items, a key and a value;
  it works through the sequence and stops at the first element that is not one (the
  elements of a string are its characters, those of a dictionary its keys). The result is
  the mapping as the three statements leave it and the exception, if one is raised. Keys
  are strings: an element whose key is not a string counts as a wrong element.
\<close>

definition dict_del :: "(string \<times> 'v) list \<Rightarrow> string \<Rightarrow> (string \<times> 'v) list" where
  "dict_del d k = filter (\<lambda>e. fst e \<noteq> k) d"

definition dict_update :: "(string \<times> 'v) list \<Rightarrow> (string \<times> 'v) list \<Rightarrow> (string \<times> 'v) list" where
  "dict_update d other = foldl (\<lambda>acc kv. dict_set acc (fst kv) (snd kv)) d other"

fun update_pairs :: "metadata \<Rightarrow> pyval list \<Rightarrow> metadata \<times> error option" where
  "update_pairs d [] = (d, None)"
| "update_pairs d (PyList [PyStr k, v] # rest) = update_pairs (dict_set d k v) rest"
| "update_pairs d (PyStr [a, b] # rest) = update_pairs (dict_set d [a] (PyStr [b])) rest"
| "update_pairs d (PyDict [kv1, kv2] # rest) =
     update_pairs (dict_set d (fst kv1) (PyStr (fst kv2))) rest"
| "update_pairs d (PyNone # rest) = (d, Some TypeError)"
| "update_pairs d (x # rest) = (d, Some ValueError)"

definition fold_ks_meta :: "metadata \<Rightarrow> metadata \<times> error option" where
  "fold_ks_meta meta =
     (case map_of meta ''ks_meta'' of
        None \<Rightarrow> (meta, Some (KeyError ''ks_meta''))
      | Some ksmeta \<Rightarrow>
         (case ksmeta of
            PyDict km \<Rightarrow> (dict_update (dict_del meta ''ks_meta'') km, None)
          | PyStr v \<Rightarrow> update_pairs (dict_del meta ''ks_meta'') (map (\<lambda>c. PyStr [c]) v)
          | PyList xs \<Rightarrow> update_pairs (dict_del meta ''ks_meta'') xs
          | PyNone \<Rightarrow> (dict_del meta ''ks_meta'', Some TypeError)))"

text \<open>
  The rest of the \<open>try\<close> block of the two validation functions, after the install
  metadata is folded in: the three generated stanzas, the flattened kernel options, the
  read of the kickstart file and the rendering to \<open>dest\<close>.
\<close>

definition render_kickstart ::
  "externals \<Rightarrow> BootSync \<Rightarrow> Profile \<Rightarrow> SyncSystem option \<Rightarrow> metadata \<Rightarrow> string \<Rightarrow> string
     \<Rightarrow> unit io" where
  "render_kickstart ext self p system meta kickstart_path dest w =
     (case bind_err (repo_stanza ext p w) (\<lambda>rs.
           bind_err (config_stanza ext p w) (\<lambda>cs.
           bind_err (kickstart_signal ext p system w) (\<lambda>kd.
           bind_err (getitem meta ''kernel_options'') (\<lambda>ko.
             Inr (dict_set (dict_set (dict_set (dict_set meta
                    ''yum_repo_stanza'' (PyStr rs))
                    ''yum_config_stanza'' (PyStr cs))
                    ''kickstart_done'' (PyStr kd))
                    ''kernel_options'' (PyStr (hash_to_string ext ko))))))) of
        Inl e \<Rightarrow> (Inl e, w)
      | Inr meta' \<Rightarrow>
         (case read_file kickstart_path w of
            (Inl e, w1) \<Rightarrow> (Inl e, w1)
          | (Inr kfile, w1) \<Rightarrow>
             (case apply_template (cheetah ext) (snippet_cache self) kfile meta' (Some dest) w1 of
                (Inl e, w2) \<Rightarrow> (Inl e, w2)
              | (Inr out, w2) \<Rightarrow> (Inr (), w2))))"

text \<open>
  The whole \<open>try\<close> block; any exception becomes a \<open>CX\<close> with the message built by \<open>msg\<close>
  from the metadata as they are then (the later statements of the block do not touch the
  key \<open>kickstart\<close>).
\<close>

definition try_render ::
  "externals \<Rightarrow> BootSync \<Rightarrow> Profile \<Rightarrow> SyncSystem option \<Rightarrow> metadata \<Rightarrow> string \<Rightarrow> string
     \<Rightarrow> (metadata \<Rightarrow> string) \<Rightarrow> unit io" where
  "try_render ext self p system meta kickstart_path dest msg w =
     (case fold_ks_meta meta of
        (meta1, Some e) \<Rightarrow> (Inl (CX (msg meta1)), w)
      | (meta1, None) \<Rightarrow>
         (case render_kickstart ext self p system meta1 kickstart_path dest w of
            (Inl e, w') \<Rightarrow> (Inl (CX (msg meta1)), w')
          | (Inr u, w') \<Rightarrow> (Inr (), w')))"

definition validate_kickstart_for_specific_profile :: "externals \<Rightarrow> BootSync \<Rightarrow> Profile \<Rightarrow> unit io" where
  "validate_kickstart_for_specific_profile ext self g w =
     (case blender ext False (ProfileObj g) of
        Inl e \<Rightarrow> (Inl e, w)
      | Inr meta \<Rightarrow>
         (case profile_parent self g of
            None \<Rightarrow> (Inl (CX (''profile '' @ profile_name g @ '' references missing distro ''
                               @ distro g)), w)
          | Some dist \<Rightarrow>
             (case getitem meta ''kickstart'' of
                Inl e \<Rightarrow> (Inl e, w)
              | Inr ks \<Rightarrow>
                 (case find_kickstart ext ks of
                    None \<Rightarrow> (Inr (), w)
                  | Some kickstart_path \<Rightarrow>
                     if path_exists w kickstart_path then
                       (let copy_path = path_join (path_join (webdir (settings self)) ''kickstarts'')
                                          (profile_name g);
                            dest = path_join copy_path ''ks.cfg''
                        in case blender ext False (ProfileObj g) of
                             Inl e \<Rightarrow>
                               (Inl (CX (''Error while rendering kickstart file '' @ kickstart_path
                                         @ '' to '' @ dest)), mkdir copy_path w)
                           | Inr meta2 \<Rightarrow>
                               try_render ext self g None meta2 kickstart_path dest
                                 (\<lambda>m. ''Error while rendering kickstart file '' @ kickstart_path
                                       @ '' to '' @ dest)
                                 (mkdir copy_path w))
                     else (Inr (), w)))))"

definition validate_kickstart_for_specific_system :: "externals \<Rightarrow> BootSync \<Rightarrow> SyncSystem \<Rightarrow> unit io" where
  "validate_kickstart_for_specific_system ext self s w =
     (case system_parent self s of
        None \<Rightarrow> (Inl (CX (''system '' @ system_name s @ '' references missing profile ''
                           @ system_profile s)), w)
      | Some p \<Rightarrow>
         (case blender ext False (SystemObj s) of
            Inl e \<Rightarrow> (Inl e, w)
          | Inr meta \<Rightarrow>
             (case getitem meta ''kickstart'' of
                Inl e \<Rightarrow> (Inl e, w)
              | Inr ks \<Rightarrow>
                 (case find_kickstart ext ks of
                    None \<Rightarrow> (Inr (), w)
                  | Some kickstart_path \<Rightarrow>
                     if kickstart_path \<noteq> [] \<and> path_exists w kickstart_path then
                       (let copy_path = path_join (path_join (webdir (settings self)) ''kickstarts_sys'')
                                          (system_name s);
                            dest = path_join copy_path ''ks.cfg''
                        in try_render ext self p (Some s) meta kickstart_path dest
                             (\<lambda>m. ''Error templating file '' @ py_str ext (dict_get_val m ''kickstart'')
                                   @ '' to '' @ dest)
                             (mkdir copy_path w))
                     else (Inr (), w)))))"

definition validate_kickstarts :: "externals \<Rightarrow> BootSync \<Rightarrow> unit io" where
  "validate_kickstarts ext self =
     io_bind (io_iter (validate_kickstart_for_specific_profile ext self) (profiles self)) (\<lambda>u.
       io_iter (validate_kickstart_for_specific_system ext self) (systems self))"

section \<open>action_sync.py: the served files\<close>

definition write_listings :: "externals \<Rightarrow> BootSync \<Rightarrow> world \<Rightarrow> world" where
  "write_listings ext self w =
     write_file (path_join (webdir (settings self)) ''system_list'')
       (yaml_dump_names ext (map system_name (systems self)))
       (write_file (path_join (webdir (settings self)) ''profile_list'')
          (yaml_dump_names ext (map profile_name (profiles self))) w)"

definition write_distro_file :: "externals \<Rightarrow> BootSync \<Rightarrow> Distro \<Rightarrow> unit io" where
  "write_distro_file ext self d w =
     (case blender ext True (DistroObj d) of
        Inl e \<Rightarrow> (Inl e, w)
      | Inr blended \<Rightarrow>
          (Inr (), write_file (path_join (path_join (webdir (settings self)) ''distros'') (distro_name d))
                     (yaml_dump ext blended) w))"

definition write_profile_file :: "externals \<Rightarrow> BootSync \<Rightarrow> Profile \<Rightarrow> unit io" where
  "write_profile_file ext self p w =
     (case blender ext True (ProfileObj p) of
        Inl e \<Rightarrow> (Inl e, w)
      | Inr blended \<Rightarrow>
         (case (case map_of blended ''kickstart'' of
                  None \<Rightarrow> Inr blended
                | Some (PyStr k) \<Rightarrow>
                    if startswith k ''/'' then
                      bind_err (getitem blended ''server'') (\<lambda>srv.
                        Inr (dict_set blended ''kickstart''
                               (PyStr (''http://'' @ py_str ext srv @ ''/cblr/kickstarts/''
                                       @ profile_name p @ ''/ks.cfg''))))
                    else Inr blended
                | Some v \<Rightarrow> Inl AttributeError) of
            Inl e \<Rightarrow> (Inl e, w)
          | Inr blended' \<Rightarrow>
              (Inr (), write_file (path_join (path_join (webdir (settings self)) ''profiles'')
                                    (profile_name p))
                         (yaml_dump ext blended') w)))"

definition write_system_file :: "externals \<Rightarrow> BootSync \<Rightarrow> string \<Rightarrow> SyncSystem \<Rightarrow> unit io" where
  "write_system_file ext self filename system w =
     (case blender ext True (SystemObj system) of
        Inl e \<Rightarrow> (Inl e, w)
      | Inr blended \<Rightarrow>
          (Inr (), write_file (path_join (path_join (webdir (settings self)) ''systems'')
                                (system_name system))
                     (yaml_dump ext blended) w))"

text \<open>
  The body of the loop of \<open>write_all_system_files\<close> over the interfaces. \<open>f2\<close> is bound
  only for the four known architectures; reading it unbound raises \<open>UnboundLocalError\<close>.
\<close>

definition pxe_archs :: "string list" where
  "pxe_archs = [''x86'', ''x86_64'', ''standard'']"

definition system_interface_files ::
  "externals \<Rightarrow> BootSync \<Rightarrow> SyncSystem \<Rightarrow> Profile \<Rightarrow> Distro \<Rightarrow> string \<times> Interface \<Rightarrow> unit io" where
  "system_interface_files ext self system p dist ni w =
     (let f1 = get_config_filename ext system (fst ni);
          f2 = (if arch dist = ''ia64'' then Some (path_join (tftpboot (settings self)) (f1 @ ''.conf''))
                else if arch dist \<in> set pxe_archs
                then Some (path_join (path_join (tftpboot (settings self)) ''pxelinux.cfg'') f1)
                else None);
          f3 = path_join (path_join (webdir (settings self)) ''systems'') f1
      in case
           (if netboot_enabled system \<and> pxe_supported system then
              (case (if arch dist \<in> set pxe_archs
                     then write_pxe_file ext self f2 (Some system) p (Some dist) False w
                     else (Inr None, w)) of
                 (Inl e, w1) \<Rightarrow> (Inl e, w1)
               | (Inr r, w1) \<Rightarrow>
                   (if arch dist = ''ia64''
                    then (case write_pxe_file ext self f2 (Some system) p (Some dist) True w1 of
                            (Inl e, w2) \<Rightarrow> (Inl e, w2)
                          | (Inr r2, w2) \<Rightarrow> (Inr (), w2))
                    else (Inr (), w1)))
            else
              (case f2 of
                 None \<Rightarrow> (Inl UnboundLocalError, w)
               | Some f \<Rightarrow> (Inr (), rmfile f w))) of
           (Inl e, w') \<Rightarrow> (Inl e, w')
         | (Inr u, w') \<Rightarrow> write_system_file ext self f3 system w')"

definition write_all_system_files :: "externals \<Rightarrow> BootSync \<Rightarrow> SyncSystem \<Rightarrow> unit io" where
  "write_all_system_files ext self system w =
     (case system_parent self system of
        None \<Rightarrow> (Inl (CX (''system '' @ system_name system @ '' references a missing profile ''
                           @ system_profile system)), w)
      | Some p \<Rightarrow>
         (case profile_parent self p of
            None \<Rightarrow> (Inl (CX (''profile '' @ system_profile system
                               @ '' references a missing distro '' @ distro p)), w)
          | Some dist \<Rightarrow>
              io_iter (system_interface_files ext self system p dist) (interfaces system) w))"

definition build_trees :: "externals \<Rightarrow> BootSync \<Rightarrow> unit io" where
  "build_trees ext self w =
     io_bind (io_iter (write_distro_file ext self) (distros self)) (\<lambda>u.
     io_bind (io_iter (write_profile_file ext self) (profiles self)) (\<lambda>u.
       io_iter (write_all_system_files ext self) (systems self)))
     (write_listings ext self w)"

section \<open>action_sync.py: the phases before the validation, and the run\<close>

text \<open>
  \<open>self.copyfile(src, dst)\<close>: \<open>shutil.copyfile\<close> raises when the source is missing, and
  then \<open>os.path.samefile\<close> in the handler raises \<open>OSError\<close>; copying a file onto itself
  is swallowed. \<open>self.linkfile(src, dst)\<close>: a hard link where the source is there and the
  destination is free, else a symbolic link where the destination is free, else a copy. A
  link is a second path with the same content (that a later write to one path shows under
  the other is not modelled); a symbolic link to a missing file has no content.
\<close>

definition copyfile :: "string \<Rightarrow> string \<Rightarrow> unit io" where
  "copyfile src dst w =
     (case files w src of
        None \<Rightarrow> (Inl (OSError src), w)
      | Some d \<Rightarrow>
          if src = dst then (Inr (), w)
          else (Inr (), write_file dst d w))"

definition linkfile :: "string \<Rightarrow> string \<Rightarrow> unit io" where
  "linkfile src dst w =
     (if path_exists w dst then copyfile src dst w
      else (case files w src of
              Some d \<Rightarrow> (Inr (), w\<lparr>files := (files w)(dst \<mapsto> d), trace := trace w @ [Linked src dst]\<rparr>)
            | None \<Rightarrow> (Inr (), w\<lparr>trace := trace w @ [Symlinked src dst]\<rparr>)))"

definition copy_bootloaders :: "BootSync \<Rightarrow> unit io" where
  "copy_bootloaders self =
     io_bind (io_iter (\<lambda>loader. copyfile (snd loader)
                                  (path_join (tftpboot (settings self)) (basename (snd loader))))
                (bootloaders (settings self))) (\<lambda>u.
       copyfile ''/var/lib/cobbler/menu.c32'' (path_join (tftpboot (settings self)) ''menu.c32''))"

text \<open>The body of the loop of \<open>copy_single_distro_files\<close> over the two roots.\<close>

definition copy_distro_into :: "externals \<Rightarrow> Distro \<Rightarrow> string \<Rightarrow> unit io" where
  "copy_distro_into ext d dirtree w =
     (let distro_dir = path_join (path_join dirtree ''images'') (distro_name d);
          w1 = mkdir distro_dir w;
          no_kernel = CX (''kernel not found: '' @ kernel d @ '', distro: '' @ distro_name d);
          no_initrd = CX (''initrd not found: '' @ initrd d @ '', distro: '' @ distro_name d)
      in case find_kernel ext (kernel d) of
           None \<Rightarrow> (Inl no_kernel, w1)
         | Some k \<Rightarrow>
            if files w1 k = None then (Inl no_kernel, w1)
            else
              (case find_initrd ext (initrd d) of
                 None \<Rightarrow> (Inl no_initrd, w1)
               | Some i \<Rightarrow>
                  if files w1 i = None then (Inl no_initrd, w1)
                  else
                    io_bind ((if startswith k dirtree then linkfile else copyfile) k
                               (path_join distro_dir (basename k))) (\<lambda>u.
                      (if startswith i dirtree then linkfile else copyfile) i
                        (path_join distro_dir (basename i))) w1))"

definition copy_single_distro_files :: "externals \<Rightarrow> BootSync \<Rightarrow> Distro \<Rightarrow> unit io" where
  "copy_single_distro_files ext self d =
     io_iter (copy_distro_into ext d) [tftpboot (settings self), webdir (settings self)]"

definition copy_distros :: "externals \<Rightarrow> BootSync \<Rightarrow> unit io" where
  "copy_distros ext self = io_iter (copy_single_distro_files ext self) (distros self)"

text \<open>\<open>clean_trees\<close> on the two listings of the world.\<close>

definition clean_trees_io :: "BootSync \<Rightarrow> unit io" where
  "clean_trees_io self w =
     (case clean_trees (settings self) (web_tree w, tftp_tree w) of
        Inl e \<Rightarrow> (Inl e, w)
      | Inr t \<Rightarrow> (Inr (), w\<lparr>web_tree := fst t, tftp_tree := snd t\<rparr>))"

text \<open>
  \<open>retemplate_yum_repos\<close>. Iterating over a value (\<open>for r in v\<close>) and \<open>r[0]\<close>; \<open>sep.join\<close>;
  a loop that collects results and stops at the first error.
\<close>

fun py_iter :: "pyval \<Rightarrow> error + pyval list" where
  "py_iter (PyList xs) = Inr xs"
| "py_iter (PyStr s) = Inr (map (\<lambda>c. PyStr [c]) s)"
| "py_iter (PyDict d) = Inr (map (\<lambda>kv. PyStr (fst kv)) d)"
| "py_iter PyNone = Inl TypeError"

fun py_first :: "pyval \<Rightarrow> error + pyval" where
  "py_first (PyList (x # xs)) = Inr x"
| "py_first (PyList []) = Inl IndexError"
| "py_first (PyStr (c # cs)) = Inr (PyStr [c])"
| "py_first (PyStr []) = Inl IndexError"
| "py_first (PyDict d) = Inl (KeyError ''0'')"
| "py_first PyNone = Inl TypeError"

definition join :: "string \<Rightarrow> string list \<Rightarrow> string" where
  "join sep xs = (case xs of [] \<Rightarrow> [] | y # ys \<Rightarrow> y @ concat (map (\<lambda>z. sep @ z) ys))"

fun map_err :: "('a \<Rightarrow> error + 'b) \<Rightarrow> 'a list \<Rightarrow> error + 'b list" where
  "map_err f [] = Inr []"
| "map_err f (x # xs) = bind_err (f x) (\<lambda>y. bind_err (map_err f xs) (\<lambda>ys. Inr (y # ys)))"

text \<open>The two loops that fill \<open>input_files\<close>, and the display name of an input file.\<close>

definition source_repo_file :: "string \<Rightarrow> pyval \<Rightarrow> error + string" where
  "source_repo_file web r =
     bind_err (py_first r) (\<lambda>r0.
       (case r0 of
          PyStr u \<Rightarrow> Inr (web @ ''/'' @ join ''/'' (drop 4 (split CHR ''/'' u)))
        | _ \<Rightarrow> Inl AttributeError))"

definition repo_file :: "string \<Rightarrow> pyval \<Rightarrow> error + string" where
  "repo_file web repo =
     (case repo of
        PyStr n \<Rightarrow> Inr (path_join (path_join (path_join web ''repo_mirror'') n) ''config.repo'')
      | _ \<Rightarrow> Inl AttributeError)"

definition repo_input_files :: "Settings \<Rightarrow> metadata \<Rightarrow> error + string list" where
  "repo_input_files st blended =
     bind_err (getitem blended ''source_repos'') (\<lambda>sr.
     bind_err (py_iter sr) (\<lambda>rs.
     bind_err (map_err (source_repo_file (webdir st)) rs) (\<lambda>files1.
     bind_err (getitem blended ''repos'') (\<lambda>rp.
     bind_err (py_iter rp) (\<lambda>repos.
     bind_err (map_err (repo_file (webdir st)) repos) (\<lambda>files2.
       Inr (files1 @ files2)))))))"

definition dispname :: "string \<Rightarrow> error + string" where
  "dispname infile =
     (let parts = split CHR ''/'' infile in
      if \<not> contains infile ''ks_mirror'' then
        (if length parts < 2 then Inl IndexError else Inr (parts ! (length parts - 2)))
      else Inr (replace (last parts) ''.repo'' []))"

text \<open>The body of the loop over \<open>input_files\<close>: an input file that cannot be opened is skipped.\<close>

definition retemplate_infile ::
  "externals \<Rightarrow> BootSync \<Rightarrow> string \<Rightarrow> metadata \<Rightarrow> string \<Rightarrow> unit io" where
  "retemplate_infile ext self outseg blended infile w =
     (case dispname infile of
        Inl e \<Rightarrow> (Inl e, w)
      | Inr dn \<Rightarrow>
         (case getitem blended ''name'' of
            Inl e \<Rightarrow> (Inl e, w)
          | Inr nm \<Rightarrow>
             (case nm of
                PyStr n \<Rightarrow>
                  (let outdir = path_join (path_join (webdir (settings self)) outseg) n
                   in case read_file infile (mkdir outdir w) of
                        (Inl e, w2) \<Rightarrow> (Inr (), w2)
                      | (Inr infile_data, w2) \<Rightarrow>
                         (case apply_template (cheetah ext) (snippet_cache self) infile_data blended
                                 (Some (path_join outdir (dn @ ''.repo''))) w2 of
                            (Inl e, w3) \<Rightarrow> (Inl e, w3)
                          | (Inr out, w3) \<Rightarrow> (Inr (), w3)))
              | _ \<Rightarrow> (Inl AttributeError, w))))"

definition retemplate_yum_repos :: "externals \<Rightarrow> BootSync \<Rightarrow> obj \<Rightarrow> bool \<Rightarrow> unit io" where
  "retemplate_yum_repos ext self ob is_profile w =
     (case blender ext False ob of
        Inl e \<Rightarrow> (Inl e, w)
      | Inr blended \<Rightarrow>
         (case repo_input_files (settings self) blended of
            Inl e \<Rightarrow> (Inl e, w)
          | Inr input_files \<Rightarrow>
              io_iter (retemplate_infile ext self
                         (if is_profile then ''repos_profile'' else ''repos_system'') blended)
                input_files w))"

definition retemplate_all_yum_repos :: "externals \<Rightarrow> BootSync \<Rightarrow> unit io" where
  "retemplate_all_yum_repos ext self =
     io_bind (io_iter (\<lambda>p. retemplate_yum_repos ext self (ProfileObj p) True) (profiles self)) (\<lambda>u.
       io_iter (\<lambda>sy. retemplate_yum_repos ext self (SystemObj sy) False) (systems self))"

text \<open>
  \<open>run\<close>, from the check of the boot directory to the post-triggers. \<open>self\<close> holds the
  objects as they are after the reload that follows the pre-triggers.
\<close>

definition run :: "externals \<Rightarrow> BootSync \<Rightarrow> bool io" where
  "run ext self w =
     (if \<not> path_exists w (tftpboot (settings self))
      then (Inl (CX (''cannot find directory: '' @ tftpboot (settings self))), w)
      else
        io_bind (pre_triggers ext) (\<lambda>u.
        io_bind (clean_trees_io self) (\<lambda>u.
        io_bind (copy_bootloaders self) (\<lambda>u.
        io_bind (copy_distros ext self) (\<lambda>u.
        io_bind (retemplate_all_yum_repos ext self) (\<lambda>u.
        io_bind (validate_kickstarts ext self) (\<lambda>u.
        io_bind (build_trees ext self) (\<lambda>u.
        io_bind (if manage_dhcp (settings self)
                 then io_bind (write_dhcp_file (cheetah ext) (asctime ext) self) (\<lambda>u w'.
                        (Inr (), regen_hosts self (regen_ethers self w')))
                 else io_return ()) (\<lambda>u.
        io_bind (make_pxe_menu ext self) (\<lambda>u.
        io_bind (post_triggers ext) (\<lambda>u.
          io_return True)))))))))) w)"

section \<open>utils.blender, from the spec\<close>

text \<open>
  Modelled from the spec: \<open>utils.blender\<close> is not part of the sources at hand. The spec
  (4.1, Configuration Blender) has it walk the chain of an object from the root, the
  distro, to the leaf and produce one mapping, in which the mapping-valued fields (kernel
  options, install metadata) are merged key by key, the more specific level winning per key.
  A level is given here by these two mappings; how the mapping of a level is read from the
  field an object stores is not said there.
\<close>

record level =
  level_kernel_options :: "string \<rightharpoonup> pyval"
  level_ks_meta :: "string \<rightharpoonup> pyval"

definition merge_by_key :: "(string \<rightharpoonup> pyval) \<Rightarrow> (string \<rightharpoonup> pyval) \<Rightarrow> (string \<rightharpoonup> pyval)" where
  "merge_by_key general specific = (\<lambda>k. case specific k of Some v \<Rightarrow> Some v | None \<Rightarrow> general k)"

definition blend_level :: "level \<Rightarrow> level \<Rightarrow> level" where
  "blend_level acc l =
     \<lparr>level_kernel_options = merge_by_key (level_kernel_options acc) (level_kernel_options l),
      level_ks_meta = merge_by_key (level_ks_meta acc) (level_ks_meta l)\<rparr>"

definition blend_chain :: "level list \<Rightarrow> level" where
  "blend_chain chain = foldl blend_level \<lparr>level_kernel_options = Map.empty, level_ks_meta = Map.empty\<rparr> chain"

section \<open>Descriptions used in the properties\<close>

text \<open>
  The line the transport-path pass leaves for \<open>line\<close>, given the server and the directory
  of the install tree \<open>t\<close>: the mount directive followed by the original URL as a comment
  for a line with both tokens, the line itself otherwise.
\<close>

definition nfs_directive :: "string \<Rightarrow> string \<Rightarrow> string \<Rightarrow> string \<Rightarrow> string" where
  "nfs_directive srv dir t line =
     (if contains line ''--url'' \<and> contains line ''url ''
      then ''nfs --server '' @ srv @ '' --dir '' @ dir @ [nl] @ ''#url --url='' @ t
      else line)"

text \<open>
  The text of the menu entry of one profile, as \<open>make_pxe_menu\<close> gets it from
  \<open>write_pxe_file\<close> in the world \<open>w\<close> (empty where that call raises).
\<close>

definition menu_entry_text :: "externals \<Rightarrow> BootSync \<Rightarrow> world \<Rightarrow> Profile \<Rightarrow> string" where
  "menu_entry_text ext self w p =
     (case fst (write_pxe_file ext self None None p (profile_parent self p) False w) of
        Inr (Some e) \<Rightarrow> e | _ \<Rightarrow> [])"

text \<open>The path of the aggregated boot menu.\<close>

definition menu_path :: "BootSync \<Rightarrow> string" where
  "menu_path self = path_join (path_join (tftpboot (settings self)) ''pxelinux.cfg'') ''default''"

text \<open>
  All interfaces of all systems, in the order the loops visit them, and the line of each
  host database for one interface.
\<close>

definition all_interfaces :: "SyncSystem list \<Rightarrow> Interface list" where
  "all_interfaces ss = concat (map (\<lambda>s. map snd (interfaces s)) ss)"

definition ethers_line :: "Interface \<Rightarrow> string" where
  "ethers_line i = upper (fmt_opt (mac_address i)) @ [tab] @ fmt_opt (ip_address i) @ [nl]"

definition hosts_line :: "Interface \<Rightarrow> string" where
  "hosts_line i = fmt_opt (ip_address i) @ [tab] @ fmt_opt (hostname i) @ [nl]"

text \<open>
  For the DHCP reservations: the tag an interface is filed under, the distro a system
  inherits, the interfaces that have a MAC (with the distro of their system) in the order
  the loops visit them, and the reservation texts of such a list, numbered from \<open>counter + 1\<close>
  as the loop numbers them, each with its tag.
\<close>

definition tag_of :: "Interface \<Rightarrow> string" where
  "tag_of i = (if dhcp_tag i = [] then ''default'' else dhcp_tag i)"

definition distro_of :: "BootSync \<Rightarrow> SyncSystem \<Rightarrow> Distro option" where
  "distro_of self s = (case system_parent self s of None \<Rightarrow> None | Some p \<Rightarrow> profile_parent self p)"

definition reservable_of :: "BootSync \<Rightarrow> SyncSystem list \<Rightarrow> (Distro option \<times> Interface) list" where
  "reservable_of self ss =
     concat (map (\<lambda>s. map (\<lambda>ni. (distro_of self s, snd ni))
                         (filter (\<lambda>ni. \<not> blank (mac_address (snd ni))) (interfaces s))) ss)"

definition reservable :: "BootSync \<Rightarrow> (Distro option \<times> Interface) list" where
  "reservable self = reservable_of self (systems self)"

fun reservations ::
  "string \<Rightarrow> string \<Rightarrow> nat \<Rightarrow> (Distro option \<times> Interface) list \<Rightarrow> error + (string \<times> string) list" where
  "reservations mode elilo counter [] = Inr []"
| "reservations mode elilo counter (di # rest) =
     bind_err (dhcp_systxt mode elilo (fst di) (counter + 1) (fmt_opt (mac_address (snd di)))
                 (ip_address (snd di)) (hostname (snd di))) (\<lambda>t.
     bind_err (reservations mode elilo (counter + 1) rest) (\<lambda>r.
       Inr ((tag_of (snd di), t) # r)))"

text \<open>The dictionary from tag to text after a list of tagged texts is appended to it.\<close>

fun apply_recs :: "(string \<Rightarrow> string option) \<Rightarrow> (string \<times> string) list \<Rightarrow> (string \<Rightarrow> string option)" where
  "apply_recs m [] = m"
| "apply_recs m (r # rs) =
     apply_recs (m(fst r \<mapsto> (case m (fst r) of None \<Rightarrow> [] | Some v \<Rightarrow> v) @ snd r)) rs"

text \<open>
  What the reconciler is to leave of a listing: the entries that stay under the web
  directory, the entries of a purged directory that stay (those whose name starts with a
  dot, which the glob pattern does not match), and an entry after the purge of the
  directories named in \<open>names\<close>.
\<close>

fun keep_web :: "string \<times> node \<Rightarrow> bool" where
  "keep_web (x, File) = endswith x ''.py''"
| "keep_web (x, Dir cs) = (x \<in> set known_dirs)"

definition hidden_only :: "(string \<times> node) list \<Rightarrow> (string \<times> node) list" where
  "hidden_only cs = filter (\<lambda>e. startswith (fst e) ''.'') cs"

fun purge_in :: "string list \<Rightarrow> string \<times> node \<Rightarrow> string \<times> node" where
  "purge_in names (x, File) = (x, File)"
| "purge_in names (x, Dir cs) = (if x \<in> set names then (x, Dir (hidden_only cs)) else (x, Dir cs))"

text \<open>
  The purge as a relation between an entry before and after: the name stays; a directory
  named in \<open>names\<close> stays a directory, what is left in it was there before, and no entry
  is left in it whose name does not start with a dot; every other entry is as it was. And
  the purge as a function on listings whose purged directories hold no entry with a dot
  name: the directory is left empty.
\<close>

fun purged_to :: "node \<Rightarrow> node \<Rightarrow> bool" where
  "purged_to (Dir cs) (Dir cs') = (set cs' \<subseteq> set cs \<and> (\<forall>c \<in> set cs'. startswith (fst c) ''.''))"
| "purged_to n n' = False"

definition reconciled :: "string list \<Rightarrow> string \<times> node \<Rightarrow> string \<times> node \<Rightarrow> bool" where
  "reconciled names e e' =
     (fst e' = fst e \<and>
      (case snd e of
         File \<Rightarrow> snd e' = File
       | Dir cs \<Rightarrow> if fst e \<in> set names then purged_to (Dir cs) (snd e') else snd e' = Dir cs))"

fun emptied_in :: "string list \<Rightarrow> string \<times> node \<Rightarrow> string \<times> node" where
  "emptied_in names (x, File) = (x, File)"
| "emptied_in names (x, Dir cs) = (if x \<in> set names then (x, Dir []) else (x, Dir cs))"

definition no_dot_entries :: "string list \<Rightarrow> (string \<times> node) list \<Rightarrow> bool" where
  "no_dot_entries names es =
     (\<forall>e \<in> set es. case snd e of
                      File \<Rightarrow> True
                    | Dir cs \<Rightarrow> fst e \<in> set names \<longrightarrow> (\<forall>c \<in> set cs. \<not> startswith (fst c) ''.''))"


section \<open>Concrete inputs\<close>

text \<open>
  Two resolvers for \<open>set_name\<close>: one for which no name at all is a host identifier, and
  one that knows a single MAC literal.
\<close>

definition unresolvable :: "string \<Rightarrow> string option" where
  "unresolvable n = None"

definition one_mac_resolver :: "string \<Rightarrow> string option" where
  "one_mac_resolver n = (if n = ''00:16:3E:00:00:01'' then Some n else None)"

definition blank_System :: System where
  "blank_System = \<lparr>name = PyNone, profile = PyNone, kernel_options = PyNone, ks_meta = PyNone\<rparr>"

text \<open>
  A small engine in place of Cheetah: it drops the \<open>#errorCatcher\<close> directive, replaces
  \<open>$key\<close> by the value of every key whose value is a string and keeps the rest of the
  text. And a world without files.
\<close>

definition dollar_engine :: engine where
  "dollar_engine src md =
     Some (foldl (\<lambda>d kv. case snd kv of PyStr v \<Rightarrow> replace d (''$'' @ fst kv) v | _ \<Rightarrow> d)
             (if startswith src (''#errorCatcher Echo'' @ [nl]) then drop 19 src else src) md)"


text \<open>
  Collaborators for the examples: the small engine, a blender that gives every object the
  same mapping, and generators that give empty text.
\<close>

definition sample_blended :: metadata where
  "sample_blended = [(''kickstart'', PyNone), (''kernel_options'', PyDict []),
                     (''server'', PyStr ''cobbler.example.org''), (''ks_meta'', PyDict []),
                     (''source_repos'', PyList []), (''repos'', PyList [])]"

definition sample_ext :: externals where
  "sample_ext = \<lparr>
     cheetah = dollar_engine,
     blender = (\<lambda>remove_hashes ob. Inr sample_blended),
     hash_to_string = (\<lambda>v. ''ksdevice=eth0''),
     find_kickstart = (\<lambda>v. None),
     find_kernel = (\<lambda>k. Some k),
     find_initrd = (\<lambda>i. Some i),
     get_config_filename = (\<lambda>s n. system_name s),
     repr_dict = (\<lambda>d. ''{}''),
     repr_list = (\<lambda>xs. ''[]''),
     yaml_dump = (\<lambda>m. ''{}''),
     yaml_dump_names = (\<lambda>ns. ''[]''),
     repo_stanza = (\<lambda>p w. Inr []),
     config_stanza = (\<lambda>p w. Inr []),
     kickstart_signal = (\<lambda>p s w. Inr []),
     pre_triggers = io_return (),
     post_triggers = io_return (),
     asctime = ''Thu Jan  1 00:00:00 1970''\<rparr>"

definition sample_settings :: Settings where
  "sample_settings = \<lparr>
     tftpboot = ''/tftpboot'', webdir = ''/var/www/cobbler'',
     server = ''cobbler.example.org'', next_server = ''cobbler.example.org'',
     manage_dhcp = True, manage_dhcp_mode = ''isc'',
     dhcpd_conf = ''/etc/dhcpd.conf'', dnsmasq_conf = ''/etc/dnsmasq.conf'',
     bootloaders = [(''standard'', ''/usr/lib/syslinux/pxelinux.0''),
                    (''ia64'', ''/var/lib/cobbler/elilo-3.6-ia64.efi'')]\<rparr>"

definition sample_distro :: Distro where
  "sample_distro = \<lparr>distro_name = ''f8'', arch = ''x86'', kernel = ''/mnt/f8/vmlinuz'',
                     initrd = ''/mnt/f8/initrd.img'', breed = Some ''redhat''\<rparr>"

definition eth0 :: Interface where
  "eth0 = \<lparr>mac_address = Some ''aa:bb:cc:dd:ee:ff'', ip_address = Some ''192.168.1.5'',
            hostname = Some ''node1'', dhcp_tag = []\<rparr>"

definition eth1 :: Interface where
  "eth1 = \<lparr>mac_address = Some [], ip_address = Some ''192.168.1.6'',
            hostname = Some ''node1b'', dhcp_tag = []\<rparr>"

definition node1 :: SyncSystem where
  "node1 = \<lparr>system_name = ''node1'', system_profile = ''web'',
             interfaces = [(''intf0'', eth0), (''intf1'', eth1)],
             netboot_enabled = True, pxe_supported = True\<rparr>"

definition sample_sync :: BootSync where
  "sample_sync = \<lparr>
     distros = [sample_distro],
     profiles = [\<lparr>profile_name = ''web'', distro = ''f8''\<rparr>,
                 \<lparr>profile_name = ''db'', distro = ''f8''\<rparr>,
                 \<lparr>profile_name = ''app'', distro = ''f8''\<rparr>],
     systems = [node1],
     settings = sample_settings,
     snippet_cache = []\<rparr>"

definition sample_world :: world where
  "sample_world = \<lparr>
     files = [''/etc/cobbler/pxedefault.template'' \<mapsto> ''DEFAULT menu'' @ [nl] @ ''$pxe_menu_items'',
              ''/etc/cobbler/pxeprofile.template'' \<mapsto> ''LABEL $profile_name''],
     dirs = {''/tftpboot''},
     trace = [],
     web_tree = [],
     tftp_tree = []\<rparr>"

text \<open>The same objects with a system named \<open>default\<close>, and with a system whose profile is not there.\<close>

definition default_system :: SyncSystem where
  "default_system = \<lparr>system_name = ''default'', system_profile = ''web'', interfaces = [],
                      netboot_enabled = True, pxe_supported = True\<rparr>"





section \<open>Properties of System.set_name\<close>

text \<open>
  C9 (counterexample). The claim says that \<open>set_name\<close> succeeds only for a resolvable host
  identifier. The name \<open>default\<close> is accepted before the resolver is asked: with a resolver
  for which nothing is a host identifier, \<open>set_name\<close> still succeeds on it.
\<close>

theorem set_name_default_counterexample:
  "set_name unresolvable ''default'' blank_System
     = Inr (blank_System\<lparr>name := PyStr ''default''\<rparr>, True)
   \<and> unresolvable ''default'' = None"
  by (simp add: set_name_def unresolvable_def)

text \<open>
  C9 (amended). \<open>set_name\<close> succeeds exactly when the name is the literal \<open>default\<close> or
  \<open>find_system_identifier\<close> returns a non-empty identifier for it; it then stores the name
  as given and returns \<open>True\<close>. For every other input it raises
  \<open>CobblerException("bad_sys_name")\<close> and the object is not changed.
\<close>

theorem set_name_succeeds_iff:
  "set_name find_system_identifier n self =
     (if n = ''default'' \<or> \<not> falsy (find_system_identifier n)
      then Inr (self\<lparr>name := PyStr n\<rparr>, True)
      else Inl (CobblerException ''bad_sys_name''))"
  by (simp add: set_name_def Let_def)

theorem set_name_succeeds_iff_witness:
  "set_name one_mac_resolver ''00:16:3E:00:00:01'' blank_System
     = Inr (blank_System\<lparr>name := PyStr ''00:16:3E:00:00:01''\<rparr>, True)
   \<and> set_name one_mac_resolver ''not a host'' blank_System = Inl (CobblerException ''bad_sys_name'')"
  using set_name_succeeds_iff [of one_mac_resolver "''00:16:3E:00:00:01''" blank_System]
        set_name_succeeds_iff [of one_mac_resolver "''not a host''" blank_System]
  by (simp add: one_mac_resolver_def falsy_def)

section \<open>Properties of the template renderer\<close>

subsection \<open>Lines and their concatenation\<close>

lemma split_not_Nil: "split sep s \<noteq> []"
  by (induction s) (auto split: list.splits)











subsection \<open>The transport-path pass\<close>

lemma nfs_lines_ok:
  assumes "split_max 2 CHR '':'' (drop 6 t) = [srv, dir]"
  shows "nfs_lines t ls acc = Inr (acc @ concat (map (\<lambda>line. (if contains line ''--url'' \<and> contains line ''url '' then ''nfs --server '' @ srv @ '' --dir '' @ dir @ [nl] @ ''#url --url='' @ t else line) @ [nl]) ls))"
  using assms by (induction ls arbitrary: acc) (auto simp: bind_err_def nfs_line_def)

lemma nfs_lines_nomatch:
  assumes "\<forall>line \<in> set ls. \<not> (contains line ''--url'' \<and> contains line ''url '')"
  shows "nfs_lines t ls acc = Inr (acc @ concat (map (\<lambda>line. line @ [nl]) ls))"
  using assms by (induction ls arbitrary: acc) (auto simp: bind_err_def nfs_line_def)

lemma nfs_line_nomatch:
  "\<not> (contains l ''--url'' \<and> contains l ''url '') \<Longrightarrow> nfs_line t l = Inr l"
  by (auto simp: nfs_line_def)

lemma nfs_line_bad:
  "contains l ''--url'' \<and> contains l ''url '' \<Longrightarrow> length (split_max 2 CHR '':'' (drop 6 t)) \<noteq> 2
   \<Longrightarrow> nfs_line t l = Inl (CX (''Invalid syntax for NFS path given during import: '' @ t))"
  by (auto simp: nfs_line_def split: list.splits)

lemma nfs_lines_bad:
  assumes "length (split_max 2 CHR '':'' (drop 6 t)) \<noteq> 2"
    and "\<exists>line \<in> set ls. contains line ''--url'' \<and> contains line ''url ''"
  shows "nfs_lines t ls acc = Inl (CX (''Invalid syntax for NFS path given during import: '' @ t))"
  using assms
proof (induction ls arbitrary: acc)
  case Nil
  then show ?case by simp
next
  case (Cons l ls)
  show ?case
  proof (cases "contains l ''--url'' \<and> contains l ''url ''")
    case True
    then show ?thesis
      using nfs_line_bad [OF True Cons.prems(1)] by (simp add: bind_err_def)
  next
    case False
    with Cons.prems have "\<exists>line \<in> set ls. contains line ''--url'' \<and> contains line ''url ''" by auto
    then have "nfs_lines t ls (acc @ l @ [nl]) = Inl (CX (''Invalid syntax for NFS path given during import: '' @ t))"
      using Cons.IH Cons.prems(1) by blast
    then show ?thesis
      using nfs_line_nomatch [OF False] by (simp add: bind_err_def)
  qed
qed

lemma length_split_max: "length (split_max n c s) = min n (count_list s c) + 1"
  by (induction n c s rule: split_max.induct) (auto split: list.splits)


text \<open>
  C7 (counterexample). The install tree \<open>nfs://srv/export\<close> starts with \<open>nfs://\<close> and the
  line holds both tokens, but the line is not rewritten: the part after \<open>nfs://\<close> has no
  colon to split at, and the pass raises.
\<close>

theorem nfs_rewrite_counterexample:
  "map_of [(''tree'', PyStr ''nfs://srv/export'')] ''tree'' = Some (PyStr ''nfs://srv/export'')
   \<and> startswith ''nfs://srv/export'' ''nfs://''
   \<and> contains ''url --url=http://x/y'' ''--url'' \<and> contains ''url --url=http://x/y'' ''url ''
   \<and> nfs_rewrite [(''tree'', PyStr ''nfs://srv/export'')] ''url --url=http://x/y''
       = Inl (CX ''Invalid syntax for NFS path given during import: nfs://srv/export'')"
  by (simp add: nfs_rewrite_def startswith_def nfs_line_def bind_err_def eval_nat_numeral)


text \<open>
  C7 (amended). When \<open>tree\<close> is absent, or is a string that does not start with \<open>nfs://\<close>,
  the pass leaves the text as it is. When it starts with \<open>nfs://\<close> and the rest splits at
  its colon into a server and a directory, every line with both tokens becomes the mount
  directive followed by the original URL as a comment line, every other line is kept, and
  each line is ended by a newline. When the rest does not hold exactly one colon and some
  line has both tokens, the pass raises \<open>CX\<close>.
\<close>

theorem nfs_rewrite_pass:
  "(map_of md ''tree'' = None \<longrightarrow> nfs_rewrite md data = Inr data)
   \<and> (map_of md ''tree'' = Some (PyStr t) \<and> \<not> startswith t ''nfs://'' \<longrightarrow> nfs_rewrite md data = Inr data)
   \<and> (map_of md ''tree'' = Some (PyStr t) \<and> startswith t ''nfs://''
        \<and> split_max 2 CHR '':'' (drop 6 t) = [srv, dir] \<longrightarrow>
        nfs_rewrite md data = Inr (concat (map (\<lambda>line. nfs_directive srv dir t line @ [nl]) (split nl data))))
   \<and> (map_of md ''tree'' = Some (PyStr t) \<and> startswith t ''nfs://''
        \<and> count_list (drop 6 t) CHR '':'' \<noteq> 1
        \<and> (\<exists>line \<in> set (split nl data). contains line ''--url'' \<and> contains line ''url '') \<longrightarrow>
        nfs_rewrite md data = Inl (CX (''Invalid syntax for NFS path given during import: '' @ t)))"
proof (intro conjI impI)
  assume "map_of md ''tree'' = None"
  then show "nfs_rewrite md data = Inr data" by (simp add: nfs_rewrite_def)
next
  assume "map_of md ''tree'' = Some (PyStr t) \<and> \<not> startswith t ''nfs://''"
  then show "nfs_rewrite md data = Inr data" by (simp add: nfs_rewrite_def)
next
  assume a: "map_of md ''tree'' = Some (PyStr t) \<and> startswith t ''nfs://''
        \<and> split_max 2 CHR '':'' (drop 6 t) = [srv, dir]"
  then have "nfs_lines t (split nl data) [] =
      Inr ([] @ concat (map (\<lambda>line. (if contains line ''--url'' \<and> contains line ''url ''
            then ''nfs --server '' @ srv @ '' --dir '' @ dir @ [nl] @ ''#url --url='' @ t else line) @ [nl])
            (split nl data)))"
    by (intro nfs_lines_ok) simp
  with a show "nfs_rewrite md data = Inr (concat (map (\<lambda>line. nfs_directive srv dir t line @ [nl]) (split nl data)))"
    by (simp add: nfs_rewrite_def nfs_directive_def)
next
  assume a: "map_of md ''tree'' = Some (PyStr t) \<and> startswith t ''nfs://''
        \<and> count_list (drop 6 t) CHR '':'' \<noteq> 1
        \<and> (\<exists>line \<in> set (split nl data). contains line ''--url'' \<and> contains line ''url '')"
  then have "length (split_max 2 CHR '':'' (drop 6 t)) \<noteq> 2"
    by (auto simp: length_split_max)
  with a have "nfs_lines t (split nl data) [] = Inl (CX (''Invalid syntax for NFS path given during import: '' @ t))"
    by (intro nfs_lines_bad) auto
  with a show "nfs_rewrite md data = Inl (CX (''Invalid syntax for NFS path given during import: '' @ t))"
    by (simp add: nfs_rewrite_def)
qed

theorem nfs_rewrite_pass_witness:
  "nfs_rewrite [(''tree'', PyStr ''nfs://srv:/export'')] (''url --url=http://x/y'' @ [nl] @ ''lang en'')
     = Inr (''nfs --server srv --dir /export'' @ [nl] @ ''#url --url=nfs://srv:/export'' @ [nl]
            @ ''lang en'' @ [nl])
   \<and> nfs_rewrite [(''tree'', PyStr ''http://srv/export'')] ''url --url=http://x/y'' = Inr ''url --url=http://x/y''
   \<and> nfs_rewrite [] ''url --url=http://x/y'' = Inr ''url --url=http://x/y''"
  using nfs_rewrite_pass [of "[(''tree'', PyStr ''nfs://srv:/export'')]"
          "''url --url=http://x/y'' @ [nl] @ ''lang en''" "''nfs://srv:/export''" "''srv''" "''/export''"]
        nfs_rewrite_pass [of "[(''tree'', PyStr ''http://srv/export'')]" "''url --url=http://x/y''"
          "''http://srv/export''" "''srv''" "''/export''"]
        nfs_rewrite_pass [of "[]" "''url --url=http://x/y''" "''nfs://srv:/export''" "''srv''" "''/export''"]
  by (simp add: startswith_def nfs_directive_def eval_nat_numeral)

section \<open>Properties of the boot menu\<close>

subsection \<open>What a call without an output file leaves behind\<close>

lemma read_file_frame:
  "read_file path w = (r, w') \<Longrightarrow> files w' = files w \<and> dirs w' = dirs w"
  by (auto simp: read_file_def split: option.splits)

lemma read_file_fst: "files w1 = files w2 \<Longrightarrow> fst (read_file path w1) = fst (read_file path w2)"
  by (auto simp: read_file_def split: option.splits)

lemma apply_template_None: "snd (apply_template e sc d md None w) = w"
  by (auto simp: apply_template_def Let_def split: sum.splits option.splits)

lemma apply_template_fst: "fst (apply_template e sc d md out w) = fst (apply_template e sc d md out w0)"
  by (auto simp: apply_template_def Let_def split: sum.splits option.splits)

lemma apply_template_Some:
  "apply_template e sc d md (Some path) w = (Inr out, w') \<Longrightarrow> files w' path = Some out"
  by (auto simp: apply_template_def Let_def write_file_def split: sum.splits option.splits)

lemma apply_template_None_eq: "apply_template e sc d md None w = (r, w') \<Longrightarrow> w' = w"
  using apply_template_None [of e sc d md w] by simp

lemma write_pxe_file_frame:
  "write_pxe_file ext self None system p d ia w = (r, w') \<Longrightarrow> files w' = files w \<and> dirs w' = dirs w"
  unfolding write_pxe_file_def
  by (auto split: if_splits sum.splits prod.splits dest!: read_file_frame apply_template_None_eq)

lemma write_pxe_file_fst:
  assumes "files w1 = files w2"
  shows "fst (write_pxe_file ext self None system p d ia w1) = fst (write_pxe_file ext self None system p d ia w2)"
proof -
  have r: "fst (read_file (pxe_template system ia) w1) = fst (read_file (pxe_template system ia) w2)"
    using assms by (rule read_file_fst)
  have a: "\<And>t md wa wb. fst (apply_template (cheetah ext) (snippet_cache self) t md None wa)
                      = fst (apply_template (cheetah ext) (snippet_cache self) t md None wb)"
    by (rule apply_template_fst)
  show ?thesis
  proof (cases "pxe_metadata ext system p d ia")
    case (Inl e)
    then show ?thesis by (simp add: write_pxe_file_def)
  next
    case (Inr md)
    show ?thesis
    proof (cases "files w2 (pxe_template system ia)")
      case None
      with assms Inr show ?thesis by (simp add: write_pxe_file_def read_file_def)
    next
      case (Some t)
      with assms Inr show ?thesis
        using a [of t md "w1\<lparr>trace := trace w1 @ [Opened (pxe_template system ia)]\<rparr>"
                          "w2\<lparr>trace := trace w2 @ [Opened (pxe_template system ia)]\<rparr>"]
        by (auto simp: write_pxe_file_def read_file_def split: prod.splits sum.splits)
    qed
  qed
qed

lemma menu_items_result:
  "menu_items ext self ps acc w = (Inr items, w2) \<Longrightarrow>
     items = acc @ concat (map (\<lambda>p. menu_entry_text ext self w p @ [nl]) ps)
     \<and> files w2 = files w \<and> dirs w2 = dirs w
     \<and> (\<forall>p \<in> set ps. \<exists>e. fst (write_pxe_file ext self None None p (profile_parent self p) False w) = Inr (Some e))"
proof (induction ps arbitrary: acc w)
  case Nil
  then show ?case by simp
next
  case (Cons p ps)
  obtain r w1 where step: "write_pxe_file ext self None None p (profile_parent self p) False w = (r, w1)"
    by (cases "write_pxe_file ext self None None p (profile_parent self p) False w")
  from step have fr: "files w1 = files w" "dirs w1 = dirs w"
    using write_pxe_file_frame by blast+
  from Cons.prems step obtain c where r: "r = Inr c"
    by (cases r) auto
  have c: "\<exists>e. c = Some e"
    using step r by (auto simp: write_pxe_file_def split: sum.splits prod.splits if_splits)
  then obtain e where e: "c = Some e" by blast
  from Cons.prems step r e have rest: "menu_items ext self ps (acc @ e @ [nl]) w1 = (Inr items, w2)"
    by simp
  note ih = Cons.IH [OF rest]
  have same: "\<And>q. fst (write_pxe_file ext self None None q (profile_parent self q) False w1)
                 = fst (write_pxe_file ext self None None q (profile_parent self q) False w)"
    using fr(1) by (rule write_pxe_file_fst)
  have etxt: "\<And>q. menu_entry_text ext self w1 q = menu_entry_text ext self w q"
    by (simp add: menu_entry_text_def same)
  have me: "menu_entry_text ext self w p = e"
    using step r e by (simp add: menu_entry_text_def)
  show ?case
    using ih fr step r e by (simp add: etxt me same)
qed

lemma names_sorted:
  "sorted (map profile_name (sort_key profile_name ps)) \<and> mset (sort_key profile_name ps) = mset ps"
  by (simp add: sorted_sort_key)

lemma three_names:
  assumes "mset (map profile_name ps) = {#''web'', ''db'', ''app''#}"
  shows "map profile_name (sort_key profile_name ps) = [''app'', ''db'', ''web'']"
proof -
  let ?ys = "map profile_name (sort_key profile_name ps)"
  have s: "sorted [''app'', ''db'', ''web'' :: string]"
    by (simp add: less_eq_char_def less_char_def)
  have m: "mset ?ys = mset [''app'', ''db'', ''web'' :: string]"
    using assms by (simp add: add_mset_commute)
  have "sort [''app'', ''db'', ''web'' :: string] = ?ys"
    using m by (rule properties_for_sort) simp
  moreover have "sort [''app'', ''db'', ''web'' :: string] = [''app'', ''db'', ''web'']"
    using s by (simp add: sort_key_id_if_sorted del: sort_key_simps)
  ultimately show ?thesis by simp
qed



text \<open>
  Against C5 as it stands: with a system named \<open>default\<close> among the loaded systems and the
  profiles \<open>web\<close>, \<open>db\<close>, \<open>app\<close>, \<open>make_pxe_menu\<close> returns normally and there is no file
  \<open>default\<close> under \<open>pxelinux.cfg\<close>.
\<close>

theorem make_pxe_menu_counterexample:
  "map profile_name (profiles (sample_sync\<lparr>systems := [default_system]\<rparr>)) = [''web'', ''db'', ''app'']
   \<and> fst (make_pxe_menu sample_ext (sample_sync\<lparr>systems := [default_system]\<rparr>) sample_world) = Inr ()
   \<and> files (snd (make_pxe_menu sample_ext (sample_sync\<lparr>systems := [default_system]\<rparr>) sample_world))
        ''/tftpboot/pxelinux.cfg/default'' = None"
  by (simp add: make_pxe_menu_def find_system_def default_system_def sample_sync_def sample_world_def)


text \<open>
  C5 (amended). Without a system named \<open>default\<close>, a run of \<open>make_pxe_menu\<close> that returns
  has read the menu template and written the file \<open>default\<close> under \<open>pxelinux.cfg\<close> in the
  boot directory: the template rendered with \<open>pxe_menu_items\<close> bound to the entries of the
  profiles, one entry (followed by a newline) for every profile, in ascending order of the
  profile names. Every profile has an entry, the sorted list holds the profiles of the store
  and no others, and profiles named \<open>web\<close>, \<open>db\<close>, \<open>app\<close> come out as \<open>app\<close>, \<open>db\<close>, \<open>web\<close>
  in whatever order the store lists them.
\<close>

theorem make_pxe_menu_sorted:
  assumes "find_system (systems self) ''default'' = None"
    and "fst (make_pxe_menu ext self w) = Inr ()"
  shows "(\<exists>template out.
            files w ''/etc/cobbler/pxedefault.template'' = Some template
          \<and> fst (apply_template (cheetah ext) (snippet_cache self) template
                   [(''pxe_menu_items'',
                     PyStr (concat (map (\<lambda>p. menu_entry_text ext self w p @ [nl])
                                      (sort_key profile_name (profiles self)))))] None w) = Inr out
          \<and> files (snd (make_pxe_menu ext self w)) (menu_path self) = Some out)
       \<and> (\<forall>p \<in> set (profiles self).
             \<exists>e. fst (write_pxe_file ext self None None p (profile_parent self p) False w) = Inr (Some e))
       \<and> sorted (map profile_name (sort_key profile_name (profiles self)))
       \<and> mset (sort_key profile_name (profiles self)) = mset (profiles self)
       \<and> (mset (map profile_name (profiles self)) = {#''web'', ''db'', ''app''#} \<longrightarrow>
            map profile_name (sort_key profile_name (profiles self)) = [''app'', ''db'', ''web''])"
proof -
  let ?ps = "sort_key profile_name (profiles self)"
  let ?tp = "''/etc/cobbler/pxedefault.template''"
  from assms obtain template where t: "files w ?tp = Some template"
    by (cases "files w ?tp") (auto simp: make_pxe_menu_def read_file_def)
  define w1 where "w1 = w\<lparr>trace := trace w @ [Opened ?tp]\<rparr>"
  have rd: "read_file ?tp w = (Inr template, w1)"
    using t by (simp add: read_file_def w1_def)
  obtain r w2 where mi: "menu_items ext self ?ps [] w1 = (r, w2)"
    by (cases "menu_items ext self ?ps [] w1")
  from assms rd mi obtain items where r: "r = Inr items"
    by (cases r) (auto simp: make_pxe_menu_def)
  note res = menu_items_result [OF mi [unfolded r]]
  have fw1: "files w1 = files w" by (simp add: w1_def)
  have same: "\<And>q. fst (write_pxe_file ext self None None q (profile_parent self q) False w1)
                 = fst (write_pxe_file ext self None None q (profile_parent self q) False w)"
    using fw1 by (rule write_pxe_file_fst)
  have etxt: "\<And>q. menu_entry_text ext self w1 q = menu_entry_text ext self w q"
    by (simp add: menu_entry_text_def same)
  have items: "items = concat (map (\<lambda>p. menu_entry_text ext self w p @ [nl]) ?ps)"
    using res by (simp add: etxt)
  obtain r3 w3 where at: "apply_template (cheetah ext) (snippet_cache self) template
        [(''pxe_menu_items'', PyStr items)] (Some (menu_path self)) w2 = (r3, w3)"
    by (cases "apply_template (cheetah ext) (snippet_cache self) template
        [(''pxe_menu_items'', PyStr items)] (Some (menu_path self)) w2")
  from assms rd mi r at obtain out where r3: "r3 = Inr out"
    by (cases r3) (auto simp: make_pxe_menu_def menu_path_def)
  have fin: "snd (make_pxe_menu ext self w) = w3"
    using assms(1) rd mi r at r3 by (simp add: make_pxe_menu_def menu_path_def)
  have out_file: "files w3 (menu_path self) = Some out"
    using at r3 apply_template_Some by blast
  have out_val: "fst (apply_template (cheetah ext) (snippet_cache self) template
        [(''pxe_menu_items'', PyStr items)] None w) = Inr out"
  proof -
    have "fst (apply_template (cheetah ext) (snippet_cache self) template
        [(''pxe_menu_items'', PyStr items)] (Some (menu_path self)) w2) = Inr out"
      using at r3 by simp
    then show ?thesis
      by (auto simp: apply_template_def Let_def split: sum.splits option.splits)
  qed
  have all: "\<forall>p \<in> set (profiles self).
       \<exists>e. fst (write_pxe_file ext self None None p (profile_parent self p) False w) = Inr (Some e)"
    using res by (simp add: same)
  show ?thesis
    using t out_val out_file fin all items names_sorted [of "profiles self"] three_names [of "profiles self"]
    by auto
qed


lemmas menu_eval = write_pxe_file_def pxe_metadata_def sample_ext_def sample_blended_def sample_distro_def bind_err_def getitem_def
      pxe_kickstart_def pxe_template_def read_file_def sample_world_def apply_template_def legacy_rewrite_def replace_def
      startswith_def inline_snippets_def inline_line_def nfs_rewrite_def dollar_engine_def literal_subst_def sample_sync_def
      path_join_def basename_def endswith_def Let_def make_pxe_menu_def find_system_def profile_parent_def find_distro_def
      sample_settings_def write_file_def mkdir_def dirname_def rstrip_slash_def node1_def less_eq_char_def less_char_def

theorem make_pxe_menu_sorted_witness:
  "find_system (systems sample_sync) ''default'' = None
   \<and> fst (make_pxe_menu sample_ext sample_sync sample_world) = Inr ()
   \<and> files (snd (make_pxe_menu sample_ext sample_sync sample_world)) ''/tftpboot/pxelinux.cfg/default''
       = Some (nl # ''DEFAULT menu'' @ [nl, nl] @ ''LABEL app'' @ [nl, nl] @ ''LABEL db'' @ [nl, nl]
               @ ''LABEL web'' @ [nl])
   \<and> map profile_name (sort_key profile_name (profiles sample_sync)) = [''app'', ''db'', ''web'']"
proof -
  have h1: "find_system (systems sample_sync) ''default'' = None"
    by (simp add: find_system_def sample_sync_def node1_def)
  have run: "make_pxe_menu sample_ext sample_sync sample_world = (Inr (), snd (make_pxe_menu sample_ext sample_sync sample_world))
     \<and> files (snd (make_pxe_menu sample_ext sample_sync sample_world)) ''/tftpboot/pxelinux.cfg/default''
       = Some (nl # ''DEFAULT menu'' @ [nl, nl] @ ''LABEL app'' @ [nl, nl] @ ''LABEL db'' @ [nl, nl]
               @ ''LABEL web'' @ [nl])"
    by (simp add: menu_eval)
  then have h2: "fst (make_pxe_menu sample_ext sample_sync sample_world) = Inr ()"
    by (metis fst_conv)
  have m: "mset (map profile_name (profiles sample_sync)) = {#''web'', ''db'', ''app''#}"
    by (simp add: sample_sync_def)
  show ?thesis
    using make_pxe_menu_sorted [OF h1 h2] h1 h2 run m by blast
qed

text \<open>
  C10. With a system named \<open>default\<close> among the loaded systems, \<open>make_pxe_menu\<close> returns
  at once: no file is read, none is written, and the world is as before.
\<close>

theorem make_pxe_menu_default_system:
  "find_system (systems self) ''default'' = Some s \<Longrightarrow> make_pxe_menu ext self w = (Inr (), w)"
  by (simp add: make_pxe_menu_def)

theorem make_pxe_menu_default_system_witness:
  "find_system (systems (sample_sync\<lparr>systems := [node1, default_system]\<rparr>)) ''default''
     = Some default_system
   \<and> make_pxe_menu sample_ext (sample_sync\<lparr>systems := [node1, default_system]\<rparr>) sample_world
     = (Inr (), sample_world)"
proof -
  have h: "find_system (systems (sample_sync\<lparr>systems := [node1, default_system]\<rparr>)) ''default''
             = Some default_system"
    by (simp add: find_system_def node1_def default_system_def)
  show ?thesis
    using h make_pxe_menu_default_system [OF h, of sample_ext sample_world] by simp
qed

section \<open>Properties of the host databases\<close>

lemma ethers_inner:
  "foldl (\<lambda>fh ni. ethers_interface (snd ni) fh) fh nis
     = fh @ map ethers_line (filter (\<lambda>i. \<not> blank (mac_address i) \<and> \<not> blank (ip_address i)) (map snd nis))"
  by (induction nis arbitrary: fh) (auto simp: ethers_interface_def ethers_line_def)

lemma ethers_outer:
  "foldl (\<lambda>fh s. foldl (\<lambda>fh ni. ethers_interface (snd ni) fh) fh (interfaces s)) fh ss
     = fh @ map ethers_line (filter (\<lambda>i. \<not> blank (mac_address i) \<and> \<not> blank (ip_address i)) (all_interfaces ss))"
  by (induction ss arbitrary: fh) (auto simp: ethers_inner all_interfaces_def)

lemma hosts_inner:
  "foldl (\<lambda>fh ni. hosts_interface (snd ni) fh) fh nis
     = fh @ map hosts_line (filter (\<lambda>i. \<not> blank (mac_address i) \<and> \<not> blank (ip_address i) \<and> \<not> blank (hostname i)) (map snd nis))"
  by (induction nis arbitrary: fh) (auto simp: hosts_interface_def hosts_line_def)

lemma hosts_outer:
  "foldl (\<lambda>fh s. foldl (\<lambda>fh ni. hosts_interface (snd ni) fh) fh (interfaces s)) fh ss
     = fh @ map hosts_line (filter (\<lambda>i. \<not> blank (mac_address i) \<and> \<not> blank (ip_address i) \<and> \<not> blank (hostname i)) (all_interfaces ss))"
  by (induction ss arbitrary: fh) (auto simp: hosts_inner all_interfaces_def)


text \<open>
  C6 (counterexample). An interface with an IP address and a hostname but an empty MAC
  gets no line in the IP-to-hostname table.
\<close>

theorem host_databases_counterexample:
  "\<not> blank (ip_address eth1) \<and> \<not> blank (hostname eth1)
   \<and> regen_hosts_writes [node1\<lparr>interfaces := [(''intf1'', eth1)]\<rparr>] = []"
  by (simp add: regen_hosts_writes_def hosts_interface_def eth1_def blank_def)


text \<open>
  C6 (amended). The MAC-to-IP table has one line (the MAC in upper case, a tab, the IP) for
  every interface with a non-empty MAC and a non-empty IP. The IP-to-hostname table has one
  line (the IP, a tab, the hostname) for every interface with a non-empty MAC, a non-empty
  IP and a non-empty hostname. The lines are in the order of the systems and of their
  interfaces, and the two files hold nothing else.
\<close>

theorem host_databases:
  "regen_ethers_writes ss
     = map ethers_line (filter (\<lambda>i. \<not> blank (mac_address i) \<and> \<not> blank (ip_address i))
                          (all_interfaces ss))
   \<and> regen_hosts_writes ss
     = map hosts_line (filter (\<lambda>i. \<not> blank (mac_address i) \<and> \<not> blank (ip_address i)
                                    \<and> \<not> blank (hostname i)) (all_interfaces ss))
   \<and> files (regen_ethers self w) ''/etc/ethers'' = Some (concat (regen_ethers_writes (systems self)))
   \<and> files (regen_hosts self w) ''/var/lib/cobbler/cobbler_hosts''
     = Some (concat (regen_hosts_writes (systems self)))"
  by (simp add: regen_ethers_writes_def regen_hosts_writes_def ethers_outer hosts_outer
      regen_ethers_def regen_hosts_def write_file_def)

theorem host_databases_witness:
  "regen_ethers_writes [node1] = [''AA:BB:CC:DD:EE:FF'' @ [tab] @ ''192.168.1.5'' @ [nl]]
   \<and> regen_hosts_writes [node1] = [''192.168.1.5'' @ [tab] @ ''node1'' @ [nl]]"
  using host_databases [of "[node1]" sample_sync sample_world]
  by (simp add: all_interfaces_def node1_def eth0_def eth1_def blank_def ethers_line_def
      hosts_line_def fmt_opt_def upper_def upper_char_def)

section \<open>Properties of the DHCP reservations\<close>

lemma map_of_dict_set: "map_of (dict_set d k v) = (map_of d)(k \<mapsto> v)"
  by (induction d) (auto simp: fun_eq_iff)

lemma dhcp_interface_blank:
  "blank (mac_address i) \<Longrightarrow> dhcp_interface mode elilo d i st = Inr st"
  by (cases st) (simp add: dhcp_interface_def)

lemma dhcp_interface_step:
  assumes "\<not> blank (mac_address i)"
    and "dhcp_interface mode elilo d i (c, defs) = Inr (c', defs')"
  shows "\<exists>t. dhcp_systxt mode elilo d (c + 1) (fmt_opt (mac_address i)) (ip_address i) (hostname i) = Inr t
           \<and> c' = c + 1 \<and> map_of defs' = apply_recs (map_of defs) [(tag_of i, t)]"
  using assms
  by (auto simp: dhcp_interface_def bind_err_def Let_def map_of_dict_set dict_get_def tag_of_def
      split: sum.splits if_splits)

lemma apply_recs_append: "apply_recs m (xs @ ys) = apply_recs (apply_recs m xs) ys"
  by (induction xs arbitrary: m) auto

lemma reservations_length: "reservations mode elilo c rs = Inr recs \<Longrightarrow> length recs = length rs \<and> map fst recs = map (\<lambda>di. tag_of (snd di)) rs"
  by (induction rs arbitrary: c recs) (auto simp: bind_err_def split: sum.splits)

lemma reservations_append:
  "reservations mode elilo c xs = Inr r1 \<Longrightarrow> reservations mode elilo (c + length xs) ys = Inr r2
   \<Longrightarrow> reservations mode elilo c (xs @ ys) = Inr (r1 @ r2)"
  by (induction xs arbitrary: c r1) (auto simp: bind_err_def split: sum.splits)

lemma interfaces_loop:
  "fold_err (\<lambda>ni. dhcp_interface mode elilo d (snd ni)) nis (c, defs) = Inr (c', defs') \<Longrightarrow>
   \<exists>recs. reservations mode elilo c
             (map (\<lambda>ni. (d, snd ni)) (filter (\<lambda>ni. \<not> blank (mac_address (snd ni))) nis)) = Inr recs
      \<and> c' = c + length recs \<and> map_of defs' = apply_recs (map_of defs) recs"
proof (induction nis arbitrary: c defs)
  case Nil
  then show ?case by simp
next
  case (Cons ni nis)
  show ?case
  proof (cases "blank (mac_address (snd ni))")
    case True
    with Cons.prems have "fold_err (\<lambda>ni. dhcp_interface mode elilo d (snd ni)) nis (c, defs) = Inr (c', defs')"
      by (simp add: dhcp_interface_blank bind_err_def)
    from Cons.IH [OF this] True show ?thesis by simp
  next
    case False
    from Cons.prems obtain c1 defs1 where
      s1: "dhcp_interface mode elilo d (snd ni) (c, defs) = Inr (c1, defs1)"
      and s2: "fold_err (\<lambda>ni. dhcp_interface mode elilo d (snd ni)) nis (c1, defs1) = Inr (c', defs')"
      by (auto simp: bind_err_def split: sum.splits)
    from dhcp_interface_step [OF False s1] obtain t where
      t: "dhcp_systxt mode elilo d (c + 1) (fmt_opt (mac_address (snd ni))) (ip_address (snd ni)) (hostname (snd ni)) = Inr t"
      and c1: "c1 = c + 1" and d1: "map_of defs1 = apply_recs (map_of defs) [(tag_of (snd ni), t)]"
      by blast
    from Cons.IH [OF s2] obtain recs where
      r: "reservations mode elilo c1 (map (\<lambda>ni. (d, snd ni)) (filter (\<lambda>ni. \<not> blank (mac_address (snd ni))) nis)) = Inr recs"
      and c': "c' = c1 + length recs" and d': "map_of defs' = apply_recs (map_of defs1) recs"
      by blast
    show ?thesis
      using False t c1 d1 r c' d' by (simp add: bind_err_def)
  qed
qed

lemma systems_loop:
  "fold_err (dhcp_system self mode elilo) ss (c, defs) = Inr (c', defs') \<Longrightarrow>
   \<exists>recs. reservations mode elilo c (reservable_of self ss) = Inr recs
      \<and> c' = c + length recs \<and> map_of defs' = apply_recs (map_of defs) recs
      \<and> (\<forall>s \<in> set ss. system_parent self s \<noteq> None)"
proof (induction ss arbitrary: c defs)
  case Nil
  then show ?case by (simp add: reservable_of_def)
next
  case (Cons s ss)
  from Cons.prems obtain c1 defs1 where
    s1: "dhcp_system self mode elilo s (c, defs) = Inr (c1, defs1)"
    and s2: "fold_err (dhcp_system self mode elilo) ss (c1, defs1) = Inr (c', defs')"
    by (auto simp: bind_err_def split: sum.splits)
  from s1 obtain p where p: "system_parent self s = Some p"
    and l: "fold_err (\<lambda>ni. dhcp_interface mode elilo (profile_parent self p) (snd ni)) (interfaces s) (c, defs) = Inr (c1, defs1)"
    by (auto simp: dhcp_system_def split: option.splits)
  let ?xs = "map (\<lambda>ni. (distro_of self s, snd ni)) (filter (\<lambda>ni. \<not> blank (mac_address (snd ni))) (interfaces s))"
  from interfaces_loop [OF l] p obtain r1 where
    r1: "reservations mode elilo c ?xs = Inr r1" and c1: "c1 = c + length r1"
    and d1: "map_of defs1 = apply_recs (map_of defs) r1"
    by (auto simp: distro_of_def)
  from Cons.IH [OF s2] obtain r2 where
    r2: "reservations mode elilo c1 (reservable_of self ss) = Inr r2" and c': "c' = c1 + length r2"
    and d': "map_of defs' = apply_recs (map_of defs1) r2"
    and ps: "\<forall>s \<in> set ss. system_parent self s \<noteq> None"
    by blast
  have len: "length r1 = length ?xs" using reservations_length [OF r1] by simp
  have "reservations mode elilo c (?xs @ reservable_of self ss) = Inr (r1 @ r2)"
    using r1 r2 c1 len by (intro reservations_append) simp_all
  then show ?case
    using c1 c' d1 d' p ps by (simp add: reservable_of_def apply_recs_append)
qed

lemma apply_recs_lookup:
  "apply_recs m recs tag =
     (if tag \<in> set (map fst recs)
      then Some ((case m tag of None \<Rightarrow> [] | Some v \<Rightarrow> v) @ concat (map snd (filter (\<lambda>r. fst r = tag) recs)))
      else m tag)"
  by (induction recs arbitrary: m) (auto simp: image_iff)

lemma dhcp_interface_total: "\<exists>st'. dhcp_interface mode elilo (Some dist) i st = Inr st'"
  by (cases st) (simp add: dhcp_interface_def dhcp_systxt_def bind_err_def Let_def)

lemma dhcp_interfaces_total:
  "\<exists>st'. fold_err (\<lambda>ni. dhcp_interface mode elilo (Some dist) (snd ni)) nis st = Inr st'"
proof (induction nis arbitrary: st)
  case Nil
  then show ?case by simp
next
  case (Cons ni nis)
  obtain st1 where "dhcp_interface mode elilo (Some dist) (snd ni) st = Inr st1"
    using dhcp_interface_total by blast
  with Cons.IH [of st1] show ?case by (simp add: bind_err_def)
qed

lemma dhcp_systems_total:
  assumes "\<forall>s \<in> set ss. distro_of self s \<noteq> None"
  shows "\<exists>st'. fold_err (dhcp_system self mode elilo) ss st = Inr st'"
  using assms
proof (induction ss arbitrary: st)
  case Nil
  then show ?case by simp
next
  case (Cons s ss)
  then obtain p dist where p: "system_parent self s = Some p" and d: "profile_parent self p = Some dist"
    by (auto simp: distro_of_def split: option.splits)
  obtain st1 where "dhcp_system self mode elilo s st = Inr st1"
    using dhcp_interfaces_total [of mode elilo dist "interfaces s" st] p d
    by (auto simp: dhcp_system_def)
  with Cons.IH [of st1] Cons.prems show ?case by (simp add: bind_err_def)
qed


text \<open>
  C2 (counterexample). In \<open>dnsmasq\<close> mode the one interface with a MAC of a system on an
  \<open>x86\<close> distro gets no reservation text at all: the counter is 1 and the text of its tag
  stays empty.
\<close>

theorem dhcp_reservations_counterexample:
  "\<not> blank (mac_address eth0)
   \<and> dhcp_system_definitions sample_sync ''dnsmasq'' ''elilo-3.6-ia64.efi''
       = Inr (1, [(''default'', [])])"
  by (simp add: dhcp_system_definitions_def dhcp_system_def dhcp_interface_def dhcp_systxt_def
      sample_sync_def node1_def eth0_def eth1_def blank_def bind_err_def system_parent_def
      profile_parent_def find_profile_def find_distro_def sample_distro_def lower_def lower_char_def
      dict_get_def fmt_opt_def)


text \<open>
  C2 (amended). An interface without a MAC contributes nothing and is no error: counter and
  dictionary stay as they are. When the loop returns, the counter is the number of the
  interfaces with a MAC, each of them has exactly one reservation text, numbered in the
  order of the loop, and the text under a tag is the concatenation of the texts of the
  interfaces of that tag, in order; the loop returns whenever every system has a profile
  with a distro. In mode \<open>isc\<close> the reservation text is one host block (never empty). In
  every other mode it is the line \<open>dhcp-host=net:ia64,IP\<close> when the interface has an IP and
  the architecture is \<open>ia64\<close>, and empty otherwise.
\<close>

theorem dhcp_reservations:
  "(dhcp_system_definitions self mode elilo = Inr (counter, defs) \<longrightarrow>
      (\<exists>recs. reservations mode elilo 0 (reservable self) = Inr recs
         \<and> counter = length (reservable self)
         \<and> map fst recs = map (\<lambda>di. tag_of (snd di)) (reservable self)
         \<and> (\<forall>tag. map_of defs tag =
               (if tag \<in> set (map fst recs)
                then Some (concat (map snd (filter (\<lambda>r. fst r = tag) recs))) else None))))
   \<and> ((\<forall>s \<in> set (systems self). distro_of self s \<noteq> None) \<longrightarrow>
        (\<exists>c ds. dhcp_system_definitions self mode elilo = Inr (c, ds)))
   \<and> (blank (mac_address i) \<longrightarrow> dhcp_interface mode elilo d i st = Inr st)
   \<and> dhcp_systxt ''isc'' elilo (Some dist) k mac ip host
       = Inr ([nl] @ ''host '' @ (if blank host then ''generic'' @ str_nat k else fmt_opt host)
              @ '' {'' @ [nl]
              @ (if arch dist = ''ia64''
                 then ''    filename '' @ [dq] @ ''/'' @ elilo @ [dq] @ '';'' @ [nl] else [])
              @ ''    hardware ethernet '' @ mac @ '';'' @ [nl]
              @ (if blank ip then [] else ''    fixed-address '' @ fmt_opt ip @ '';'' @ [nl])
              @ ''}'' @ [nl])
   \<and> (mode \<noteq> ''isc'' \<longrightarrow>
        dhcp_systxt mode elilo (Some dist) k mac ip host
          = Inr (if \<not> blank ip \<and> lower (arch dist) = ''ia64''
                 then ''dhcp-host=net:ia64,'' @ fmt_opt ip @ [nl] else []))"
proof (intro conjI impI)
  assume a: "dhcp_system_definitions self mode elilo = Inr (counter, defs)"
  then have "fold_err (dhcp_system self mode elilo) (systems self) (0, []) = Inr (counter, defs)"
    by (simp add: dhcp_system_definitions_def)
  from systems_loop [OF this] obtain recs where
    r: "reservations mode elilo 0 (reservable self) = Inr recs"
    and c: "counter = length recs" and d: "map_of defs = apply_recs Map.empty recs"
    by (auto simp: reservable_def)
  note len = reservations_length [OF r]
  have "\<forall>tag. map_of defs tag =
          (if tag \<in> set (map fst recs)
           then Some (concat (map snd (filter (\<lambda>r. fst r = tag) recs))) else None)"
    by (simp add: d apply_recs_lookup)
  then have "reservations mode elilo 0 (reservable self) = Inr recs
         \<and> counter = length (reservable self)
         \<and> map fst recs = map (\<lambda>di. tag_of (snd di)) (reservable self)
         \<and> (\<forall>tag. map_of defs tag =
               (if tag \<in> set (map fst recs)
                then Some (concat (map snd (filter (\<lambda>r. fst r = tag) recs))) else None))"
    using r c len by simp
  then show "\<exists>recs. reservations mode elilo 0 (reservable self) = Inr recs
         \<and> counter = length (reservable self)
         \<and> map fst recs = map (\<lambda>di. tag_of (snd di)) (reservable self)
         \<and> (\<forall>tag. map_of defs tag =
               (if tag \<in> set (map fst recs)
                then Some (concat (map snd (filter (\<lambda>r. fst r = tag) recs))) else None))"
    by (rule exI)
next
  assume "\<forall>s \<in> set (systems self). distro_of self s \<noteq> None"
  from dhcp_systems_total [OF this, of mode elilo "(0, [])"]
  show "\<exists>c ds. dhcp_system_definitions self mode elilo = Inr (c, ds)"
    by (auto simp: dhcp_system_definitions_def)
next
  assume "blank (mac_address i)"
  then show "dhcp_interface mode elilo d i st = Inr st" by (rule dhcp_interface_blank)
next
  show "dhcp_systxt ''isc'' elilo (Some dist) k mac ip host
       = Inr ([nl] @ ''host '' @ (if blank host then ''generic'' @ str_nat k else fmt_opt host)
              @ '' {'' @ [nl]
              @ (if arch dist = ''ia64''
                 then ''    filename '' @ [dq] @ ''/'' @ elilo @ [dq] @ '';'' @ [nl] else [])
              @ ''    hardware ethernet '' @ mac @ '';'' @ [nl]
              @ (if blank ip then [] else ''    fixed-address '' @ fmt_opt ip @ '';'' @ [nl])
              @ ''}'' @ [nl])"
    by (simp add: dhcp_systxt_def)
next
  assume "mode \<noteq> ''isc''"
  then show "dhcp_systxt mode elilo (Some dist) k mac ip host
          = Inr (if \<not> blank ip \<and> lower (arch dist) = ''ia64''
                 then ''dhcp-host=net:ia64,'' @ fmt_opt ip @ [nl] else [])"
    by (simp add: dhcp_systxt_def)
qed

lemmas dhcp_eval = dhcp_system_definitions_def dhcp_system_def dhcp_interface_def dhcp_systxt_def
      sample_sync_def node1_def eth0_def eth1_def blank_def bind_err_def system_parent_def
      profile_parent_def find_profile_def find_distro_def sample_distro_def
      dict_get_def fmt_opt_def

theorem dhcp_reservations_witness:
  "dhcp_system_definitions sample_sync ''isc'' ''elilo-3.6-ia64.efi''
     = Inr (1, [(''default'',
                 [nl] @ ''host node1 {'' @ [nl]
                 @ ''    hardware ethernet aa:bb:cc:dd:ee:ff;'' @ [nl]
                 @ ''    fixed-address 192.168.1.5;'' @ [nl] @ ''}'' @ [nl])])
   \<and> length (reservable sample_sync) = 1
   \<and> blank (mac_address eth1)
   \<and> dhcp_interface ''isc'' ''elilo-3.6-ia64.efi'' (Some sample_distro) eth1 (0, []) = Inr (0, [])"
proof -
  let ?defs = "[(''default'',
                 [nl] @ ''host node1 {'' @ [nl]
                 @ ''    hardware ethernet aa:bb:cc:dd:ee:ff;'' @ [nl]
                 @ ''    fixed-address 192.168.1.5;'' @ [nl] @ ''}'' @ [nl])]"
  have run: "dhcp_system_definitions sample_sync ''isc'' ''elilo-3.6-ia64.efi'' = Inr (1, ?defs)"
    by (simp add: dhcp_eval)
  have b: "blank (mac_address eth1)" by (simp add: eth1_def blank_def)
  note t = dhcp_reservations [of sample_sync "''isc''" "''elilo-3.6-ia64.efi''" 1 ?defs eth1
            "Some sample_distro" "(0, [])" sample_distro 1 "''aa:bb:cc:dd:ee:ff''" None None]
  from t [THEN conjunct1, THEN mp, OF run]
  have l: "length (reservable sample_sync) = 1" by auto
  from t [THEN conjunct2, THEN conjunct2, THEN conjunct1, THEN mp, OF b]
  have s: "dhcp_interface ''isc'' ''elilo-3.6-ia64.efi'' (Some sample_distro) eth1 (0, []) = Inr (0, [])" .
  from run b l s show ?thesis by simp
qed

section \<open>Properties of the tree reconciler\<close>

lemma tree_rmtree_eq: "tree_rmtree root c cs = Inr (remove_entry c cs)"
  by (auto simp: tree_rmtree_def tree_rmfile_def split: option.splits node.splits)

lemma rmtree_all: "fold_err (\<lambda>c. tree_rmtree root c) ns cs = Inr (filter (\<lambda>e. fst e \<notin> set ns) cs)"
proof (induction ns arbitrary: cs)
  case Nil
  then show ?case by simp
next
  case (Cons n ns)
  have "filter (\<lambda>e. fst e \<notin> set ns) (remove_entry n cs) = filter (\<lambda>e. fst e \<notin> set (n # ns)) cs"
    by (auto simp: remove_entry_def intro: filter_cong)
  with Cons.IH [of "remove_entry n cs"] show ?case
    by (simp add: tree_rmtree_eq bind_err_def)
qed

lemma glob_star_rest: "filter (\<lambda>e. fst e \<notin> set (glob_star cs)) cs = hidden_only cs"
  unfolding hidden_only_def glob_star_def
  by (rule filter_cong) auto

lemma tree_rmtree_contents_eq:
  "tree_rmtree_contents root x es =
     Inr (case map_of es x of Some (Dir cs) \<Rightarrow> replace_entry x (Dir (hidden_only cs)) es | _ \<Rightarrow> es)"
  by (auto simp: tree_rmtree_contents_def rmtree_all glob_star_rest bind_err_def
      split: option.splits node.splits)

lemma purged_known: "x \<in> set purged_dirs \<Longrightarrow> x \<in> set known_dirs"
  by (auto simp: purged_dirs_def known_dirs_def)

lemma clean_entry_eq:
  "clean_entry root x es =
     Inr (case map_of es x of
            None \<Rightarrow> es
          | Some File \<Rightarrow> if endswith x ''.py'' then es else remove_entry x es
          | Some (Dir cs) \<Rightarrow>
              if x \<notin> set known_dirs then remove_entry x es
              else if x \<in> set purged_dirs then replace_entry x (Dir (hidden_only cs)) es
              else es)"
proof (cases "map_of es x")
  case None
  then show ?thesis by (simp add: clean_entry_def bind_err_def)
next
  case (Some n)
  show ?thesis
  proof (cases n)
    case File
    have nx: "map_of (remove_entry x es) x = None"
      by (simp add: remove_entry_def map_of_eq_None_iff image_iff)
    show ?thesis
      using Some File nx by (simp add: clean_entry_def bind_err_def tree_rmfile_def)
  next
    case (Dir cs)
    have nx: "map_of (remove_entry x es) x = None"
      by (simp add: remove_entry_def map_of_eq_None_iff image_iff)
    show ?thesis
      using Some Dir nx purged_known [of x]
      by (auto simp: clean_entry_def bind_err_def tree_rmtree_eq tree_rmtree_contents_eq)
  qed
qed

lemma distinct_entry:
  "distinct (map fst es) \<Longrightarrow> e \<in> set es \<Longrightarrow> map_of es (fst e) = Some (snd e)"
  by (cases e) simp

lemma purge_in_fst [simp]: "fst (purge_in names e) = fst e"
  by (cases e; cases "snd e") auto

lemma keep_web_purge [simp]: "keep_web (purge_in names e) = keep_web e"
  by (cases e; cases "snd e") auto

lemma hidden_only_idem [simp]: "hidden_only (hidden_only cs) = hidden_only cs"
  by (simp add: hidden_only_def)

lemma purge_in_idem [simp]: "purge_in names (purge_in names e) = purge_in names e"
  by (cases e; cases "snd e") auto

lemma clean_entry_distinct:
  assumes "distinct (map fst es)"
  shows "clean_entry root x es =
           Inr (map (\<lambda>e. if fst e = x then purge_in purged_dirs e else e)
                  (filter (\<lambda>e. fst e = x \<longrightarrow> keep_web e) es))"
proof -
  have none: "map_of es x = None \<Longrightarrow> \<forall>e \<in> set es. fst e \<noteq> x"
    by (auto simp: map_of_eq_None_iff)
  have some: "\<And>n. map_of es x = Some n \<Longrightarrow> \<forall>e \<in> set es. fst e = x \<longrightarrow> e = (x, n)"
    using assms by (auto dest: map_of_SomeD eq_key_imp_eq_value)
  show ?thesis
  proof (cases "map_of es x")
    case None
    from none [OF None] have "filter (\<lambda>e. fst e = x \<longrightarrow> keep_web e) es = es"
      by (auto intro!: filter_True)
    moreover from none [OF None] have "map (\<lambda>e. if fst e = x then purge_in purged_dirs e else e) es = es"
      by (auto intro!: map_idI)
    ultimately show ?thesis using None by (simp add: clean_entry_eq)
  next
    case (Some n)
    note u = some [OF Some]
    show ?thesis
    proof (cases n)
      case File
      show ?thesis
      proof (cases "endswith x ''.py''")
        case True
        from u File True have "filter (\<lambda>e. fst e = x \<longrightarrow> keep_web e) es = es"
          by (auto intro!: filter_True)
        moreover from u File have "map (\<lambda>e. if fst e = x then purge_in purged_dirs e else e) es = es"
          by (auto intro!: map_idI)
        ultimately show ?thesis using Some File True by (simp add: clean_entry_eq)
      next
        case False
        from u File False have f: "filter (\<lambda>e. fst e = x \<longrightarrow> keep_web e) es = remove_entry x es"
          unfolding remove_entry_def by (auto intro!: filter_cong)
        have "map (\<lambda>e. if fst e = x then purge_in purged_dirs e else e) (remove_entry x es) = remove_entry x es"
          by (auto intro!: map_idI simp: remove_entry_def)
        with f show ?thesis using Some File False by (simp add: clean_entry_eq)
      qed
    next
      case (Dir cs)
      show ?thesis
      proof (cases "x \<in> set known_dirs")
        case False
        from u Dir False have f: "filter (\<lambda>e. fst e = x \<longrightarrow> keep_web e) es = remove_entry x es"
          unfolding remove_entry_def by (auto intro!: filter_cong)
        have "map (\<lambda>e. if fst e = x then purge_in purged_dirs e else e) (remove_entry x es) = remove_entry x es"
          by (auto intro!: map_idI simp: remove_entry_def)
        with f show ?thesis using Some Dir False by (simp add: clean_entry_eq)
      next
        case True
        from u Dir True have f: "filter (\<lambda>e. fst e = x \<longrightarrow> keep_web e) es = es"
          by (auto intro!: filter_True)
        show ?thesis
        proof (cases "x \<in> set purged_dirs")
          case p: True
          from u Dir p have "map (\<lambda>e. if fst e = x then purge_in purged_dirs e else e) es
                               = replace_entry x (Dir (hidden_only cs)) es"
            unfolding replace_entry_def by (auto intro!: map_cong)
          with f show ?thesis using Some Dir True p by (simp add: clean_entry_eq)
        next
          case p: False
          from u Dir p have "map (\<lambda>e. if fst e = x then purge_in purged_dirs e else e) es = es"
            by (auto intro!: map_idI)
          with f show ?thesis using Some Dir True p by (simp add: clean_entry_eq)
        qed
      qed
    qed
  qed
qed

lemma clean_loop:
  assumes "distinct (map fst es)"
  shows "fold_err (clean_entry root) ns es =
           Inr (map (\<lambda>e. if fst e \<in> set ns then purge_in purged_dirs e else e)
                  (filter (\<lambda>e. fst e \<in> set ns \<longrightarrow> keep_web e) es))"
  using assms
proof (induction ns arbitrary: es)
  case Nil
  then show ?case by simp
next
  case (Cons x ns)
  let ?es1 = "map (\<lambda>e. if fst e = x then purge_in purged_dirs e else e)
                (filter (\<lambda>e. fst e = x \<longrightarrow> keep_web e) es)"
  have m: "map fst ?es1 = map fst (filter (\<lambda>e. fst e = x \<longrightarrow> keep_web e) es)"
    by (simp add: comp_def cong: if_cong)
  have "distinct (map fst (filter (\<lambda>e. fst e = x \<longrightarrow> keep_web e) es))"
    using Cons.prems by (simp add: distinct_map_filter)
  then have d1: "distinct (map fst ?es1)" by (subst m)
  have "map (\<lambda>e. if fst e \<in> set ns then purge_in purged_dirs e else e)
          (filter (\<lambda>e. fst e \<in> set ns \<longrightarrow> keep_web e) ?es1)
        = map (\<lambda>e. if fst e \<in> set (x # ns) then purge_in purged_dirs e else e)
            (filter (\<lambda>e. fst e \<in> set (x # ns) \<longrightarrow> keep_web e) es)"
    by (induction es) auto
  with Cons.IH [OF d1] clean_entry_distinct [OF Cons.prems, of root x] show ?case
    by (simp add: bind_err_def)
qed

lemma purge_one:
  assumes "distinct (map fst es)"
  shows "(case map_of es x of Some (Dir cs) \<Rightarrow> replace_entry x (Dir (hidden_only cs)) es | _ \<Rightarrow> es)
           = map (purge_in [x]) es"
proof -
  have none: "map_of es x = None \<Longrightarrow> \<forall>e \<in> set es. fst e \<noteq> x"
    by (auto simp: map_of_eq_None_iff)
  have some: "\<And>n. map_of es x = Some n \<Longrightarrow> \<forall>e \<in> set es. fst e = x \<longrightarrow> e = (x, n)"
    using assms by (auto dest: map_of_SomeD eq_key_imp_eq_value)
  have other: "\<And>e. fst e \<noteq> x \<Longrightarrow> purge_in [x] e = e"
    by (case_tac e; case_tac "snd e") auto
  show ?thesis
  proof (cases "map_of es x")
    case None
    with none other have "map (purge_in [x]) es = es" by (auto intro!: map_idI)
    with None show ?thesis by simp
  next
    case (Some n)
    note u = some [OF Some]
    show ?thesis
    proof (cases n)
      case File
      with u other have "map (purge_in [x]) es = es"
        by (intro map_idI) (metis purge_in.simps(1))
      with Some File show ?thesis by simp
    next
      case (Dir cs)
      with u other have "map (purge_in [x]) es = replace_entry x (Dir (hidden_only cs)) es"
        unfolding replace_entry_def by (intro map_cong) auto
      with Some Dir show ?thesis by simp
    qed
  qed
qed

lemma contents_distinct:
  assumes "distinct (map fst es)"
  shows "tree_rmtree_contents root x es = Inr (map (purge_in [x]) es)"
  by (simp only: tree_rmtree_contents_eq purge_one [OF assms])

lemma purge_two: "purge_in [b] (purge_in [a] e) = purge_in [a, b] e"
  by (cases e; cases "snd e") auto

text \<open>
  What the reconciler computes: under the web directory a file stays exactly when its name
  ends in \<open>.py\<close>, a directory stays exactly when its name is one of the thirteen known
  names, and each directory that is purged loses the entries that \<open>glob\<close> lists for it.
  Nothing is added, the order of the entries is kept, and the reconciler does not raise.
\<close>

lemma clean_trees_exact:
  assumes "distinct (map fst web)" and "distinct (map fst tftp)"
  shows "clean_trees st (web, tftp) =
           Inr (map (purge_in purged_dirs) (filter keep_web web),
                map (purge_in [''pxelinux.cfg'', ''images'']) tftp)"
proof -
  have w: "fold_err (clean_entry (webdir st)) (map fst web) web
             = Inr (map (purge_in purged_dirs) (filter keep_web web))"
  proof -
    have "map (\<lambda>e. if fst e \<in> set (map fst web) then purge_in purged_dirs e else e)
            (filter (\<lambda>e. fst e \<in> set (map fst web) \<longrightarrow> keep_web e) web)
          = map (purge_in purged_dirs) (filter keep_web web)"
      by (intro map_cong filter_cong) auto
    with clean_loop [OF assms(1), of "webdir st" "map fst web"] show ?thesis by simp
  qed
  have d1: "distinct (map fst (map (purge_in [''pxelinux.cfg'']) tftp))"
    using assms(2) by (simp add: comp_def)
  have c1: "tree_rmtree_contents (tftpboot st) ''pxelinux.cfg'' tftp
              = Inr (map (purge_in [''pxelinux.cfg'']) tftp)"
    using assms(2) by (rule contents_distinct)
  have c2: "tree_rmtree_contents (tftpboot st) ''images'' (map (purge_in [''pxelinux.cfg'']) tftp)
              = Inr (map (purge_in [''pxelinux.cfg'', ''images'']) tftp)"
    using contents_distinct [OF d1, of "tftpboot st" "''images''"] by (simp add: purge_two)
  show ?thesis
    by (simp add: clean_trees_def bind_err_def w c1 c2)
qed


lemma purge_in_reconciled: "reconciled names e (purge_in names e)"
  by (cases e; cases "snd e") (auto simp: reconciled_def hidden_only_def)

lemma purge_in_emptied:
  "no_dot_entries names es \<Longrightarrow> map (purge_in names) es = map (emptied_in names) es"
proof (rule map_cong [OF refl])
  fix e assume n: "no_dot_entries names es" and m: "e \<in> set es"
  show "purge_in names e = emptied_in names e"
  proof (cases e)
    case (Pair x nd)
    show ?thesis
    proof (cases nd)
      case File
      with Pair show ?thesis by simp
    next
      case (Dir cs)
      have "x \<in> set names \<Longrightarrow> \<forall>c \<in> set cs. \<not> startswith (fst c) ''.''"
        using n [unfolded no_dot_entries_def, THEN bspec, OF m] Pair Dir by simp
      then have "x \<in> set names \<Longrightarrow> hidden_only cs = []"
        by (auto simp: hidden_only_def filter_empty_conv)
      with Pair Dir show ?thesis by simp
    qed
  qed
qed

lemma no_dot_filter: "no_dot_entries names es \<Longrightarrow> no_dot_entries names (filter P es)"
  by (auto simp: no_dot_entries_def)

text \<open>
  C3 (amended). Under the web directory a file stays exactly when its name ends in \<open>.py\<close>
  and is then untouched, and a directory stays exactly when its name is one of the thirteen
  known names. Each of the eight known directories that hold generated files stays a
  directory and is purged: what is left in it was there before, and no entry is left in it
  whose name does not start with a dot. Every other directory that stays is untouched.
  Under the boot directory \<open>pxelinux.cfg\<close> and \<open>images\<close> are purged in the same way and
  every other entry is untouched. The reconciler does not raise, adds nothing and keeps the
  order of the entries. When the purged directories hold no entry with a dot name, they
  are left empty.
\<close>

theorem clean_trees_reconciles:
  assumes "distinct (map fst web)" and "distinct (map fst tftp)"
  shows "(\<exists>web' tftp'.
            clean_trees st (web, tftp) = Inr (web', tftp')
          \<and> list_all2 (reconciled purged_dirs) (filter keep_web web) web'
          \<and> list_all2 (reconciled [''pxelinux.cfg'', ''images'']) tftp tftp')
       \<and> (no_dot_entries purged_dirs web \<and> no_dot_entries [''pxelinux.cfg'', ''images''] tftp \<longrightarrow>
            clean_trees st (web, tftp) =
              Inr (map (emptied_in purged_dirs) (filter keep_web web),
                   map (emptied_in [''pxelinux.cfg'', ''images'']) tftp))"
proof -
  note ex = clean_trees_exact [OF assms, of st]
  have a: "list_all2 (reconciled purged_dirs) (filter keep_web web)
             (map (purge_in purged_dirs) (filter keep_web web))"
    by (simp add: list_all2_map2 list_all2_same purge_in_reconciled)
  have b: "list_all2 (reconciled [''pxelinux.cfg'', ''images'']) tftp
             (map (purge_in [''pxelinux.cfg'', ''images'']) tftp)"
    by (simp add: list_all2_map2 list_all2_same purge_in_reconciled)
  have c: "clean_trees st (web, tftp) =
              Inr (map (emptied_in purged_dirs) (filter keep_web web),
                   map (emptied_in [''pxelinux.cfg'', ''images'']) tftp)"
    if "no_dot_entries purged_dirs web \<and> no_dot_entries [''pxelinux.cfg'', ''images''] tftp"
    using that ex by (simp add: purge_in_emptied no_dot_filter)
  show ?thesis
    using ex a b c by blast
qed

text \<open>
  Against C3 as it stands: a file \<open>index.py\<close> directly under the web directory is on no list
  of known names, and it stays: files are kept by the ending \<open>.py\<close> of their name.
\<close>

theorem clean_trees_counterexample:
  "''index.py'' \<notin> set known_dirs
   \<and> clean_trees sample_settings ([(''index.py'', File)], []) = Inr ([(''index.py'', File)], [])"
  by (simp add: clean_trees_def clean_entry_def known_dirs_def bind_err_def
      endswith_def tree_rmtree_contents_def)

theorem clean_trees_reconciles_witness:
  "distinct (map fst [(''index.py'', File), (''junk'', File), (''webui'', Dir [(''x'', File)]),
                      (''old'', Dir [(''y'', File)]),
                      (''kickstarts'', Dir [(''web'', Dir [(''ks.cfg'', File)])])])
   \<and> distinct (map fst [(''pxelinux.0'', File), (''pxelinux.cfg'', Dir [(''default'', File)]),
                         (''images'', Dir [(''f8'', Dir [(''vmlinuz'', File)])]),
                         (''other'', Dir [(''z'', File)])])
   \<and> clean_trees sample_settings
        ([(''index.py'', File), (''junk'', File), (''webui'', Dir [(''x'', File)]),
          (''old'', Dir [(''y'', File)]),
          (''kickstarts'', Dir [(''web'', Dir [(''ks.cfg'', File)])])],
         [(''pxelinux.0'', File), (''pxelinux.cfg'', Dir [(''default'', File)]),
          (''images'', Dir [(''f8'', Dir [(''vmlinuz'', File)])]),
          (''other'', Dir [(''z'', File)])])
       = Inr ([(''index.py'', File), (''webui'', Dir [(''x'', File)]), (''kickstarts'', Dir [])],
              [(''pxelinux.0'', File), (''pxelinux.cfg'', Dir []), (''images'', Dir []),
               (''other'', Dir [(''z'', File)])])"
proof -
  let ?web = "[(''index.py'', File), (''junk'', File), (''webui'', Dir [(''x'', File)]),
               (''old'', Dir [(''y'', File)]),
               (''kickstarts'', Dir [(''web'', Dir [(''ks.cfg'', File)])])]"
  let ?tftp = "[(''pxelinux.0'', File), (''pxelinux.cfg'', Dir [(''default'', File)]),
                (''images'', Dir [(''f8'', Dir [(''vmlinuz'', File)])]),
                (''other'', Dir [(''z'', File)])]"
  have d1: "distinct (map fst ?web)" by simp
  have d2: "distinct (map fst ?tftp)" by simp
  have n: "no_dot_entries purged_dirs ?web \<and> no_dot_entries [''pxelinux.cfg'', ''images''] ?tftp"
    by (simp add: no_dot_entries_def startswith_def)
  from clean_trees_reconciles [OF d1 d2, of sample_settings, THEN conjunct2, THEN mp, OF n]
  have "clean_trees sample_settings (?web, ?tftp) =
              Inr (map (emptied_in purged_dirs) (filter keep_web ?web),
                   map (emptied_in [''pxelinux.cfg'', ''images'']) ?tftp)" .
  then show ?thesis
    using d1 d2 by (simp add: known_dirs_def purged_dirs_def endswith_def)
qed


section \<open>Properties of the reference check\<close>















section \<open>Properties of the install metadata and the kernel options\<close>

text \<open>
  Against C8 as it stands: a System as \<open>clear\<close> leaves it holds the empty string, not a
  mapping, in \<open>kernel_options\<close> and in \<open>ks_meta\<close>.
\<close>

theorem system_fields_counterexample:
  "\<not> is_mapping (kernel_options (clear blank_System)) \<and> \<not> is_mapping (ks_meta (clear blank_System))"
  by (simp add: clear_def)


text \<open>
  C8 (amended). A System holds in \<open>kernel_options\<close> and \<open>ks_meta\<close> the empty string after
  \<open>clear\<close> and, after \<open>from_datastruct\<close>, the values of the seed data as they are;
  \<open>to_datastruct\<close> gives them back as they are. Blending the chain distro, profile, system
  merges the kernel options and the install metadata of the three levels key by key: a key
  has the value of the system level when it is set there, else that of the profile level
  when it is set there, else that of the distro level; so every key of any level is a key
  of the blended mapping, and no level replaces the mapping of another as a whole. For a
  chain of any length, the last level wins per key over the blend of the levels before it.
\<close>

theorem system_fields:
  "kernel_options (clear self) = PyStr [] \<and> ks_meta (clear self) = PyStr []
   \<and> (from_datastruct seed_data self = Inr s' \<longrightarrow>
        map_of seed_data ''kernel_options'' = Some (kernel_options s')
        \<and> map_of seed_data ''ks_meta'' = Some (ks_meta s'))
   \<and> map_of (to_datastruct self) ''kernel_options'' = Some (kernel_options self)
   \<and> map_of (to_datastruct self) ''ks_meta'' = Some (ks_meta self)
   \<and> level_kernel_options (blend_chain [d, p, s]) k =
        (case level_kernel_options s k of
           Some v \<Rightarrow> Some v
         | None \<Rightarrow> (case level_kernel_options p k of
                      Some v \<Rightarrow> Some v
                    | None \<Rightarrow> level_kernel_options d k))
   \<and> level_ks_meta (blend_chain [d, p, s]) k =
        (case level_ks_meta s k of
           Some v \<Rightarrow> Some v
         | None \<Rightarrow> (case level_ks_meta p k of
                      Some v \<Rightarrow> Some v
                    | None \<Rightarrow> level_ks_meta d k))
   \<and> dom (level_kernel_options (blend_chain [d, p, s]))
        = dom (level_kernel_options d) \<union> dom (level_kernel_options p) \<union> dom (level_kernel_options s)
   \<and> dom (level_ks_meta (blend_chain [d, p, s]))
        = dom (level_ks_meta d) \<union> dom (level_ks_meta p) \<union> dom (level_ks_meta s)
   \<and> level_kernel_options (blend_chain (chain @ [l])) k =
        (case level_kernel_options l k of
           Some v \<Rightarrow> Some v
         | None \<Rightarrow> level_kernel_options (blend_chain chain) k)
   \<and> level_ks_meta (blend_chain (chain @ [l])) k =
        (case level_ks_meta l k of
           Some v \<Rightarrow> Some v
         | None \<Rightarrow> level_ks_meta (blend_chain chain) k)"
proof -
  have c: "kernel_options (clear self) = PyStr [] \<and> ks_meta (clear self) = PyStr []"
    by (simp add: clear_def)
  have f: "from_datastruct seed_data self = Inr s' \<longrightarrow>
        map_of seed_data ''kernel_options'' = Some (kernel_options s')
        \<and> map_of seed_data ''ks_meta'' = Some (ks_meta s')"
    by (auto simp: from_datastruct_def bind_err_def getitem_def split: option.splits sum.splits)
  have t: "map_of (to_datastruct self) ''kernel_options'' = Some (kernel_options self)
           \<and> map_of (to_datastruct self) ''ks_meta'' = Some (ks_meta self)"
    by (simp add: to_datastruct_def)
  have ko: "\<And>k. level_kernel_options (blend_chain [d, p, s]) k =
        (case level_kernel_options s k of
           Some v \<Rightarrow> Some v
         | None \<Rightarrow> (case level_kernel_options p k of
                      Some v \<Rightarrow> Some v
                    | None \<Rightarrow> level_kernel_options d k))"
    by (simp add: blend_chain_def blend_level_def merge_by_key_def split: option.splits)
  have km: "\<And>k. level_ks_meta (blend_chain [d, p, s]) k =
        (case level_ks_meta s k of
           Some v \<Rightarrow> Some v
         | None \<Rightarrow> (case level_ks_meta p k of
                      Some v \<Rightarrow> Some v
                    | None \<Rightarrow> level_ks_meta d k))"
    by (simp add: blend_chain_def blend_level_def merge_by_key_def split: option.splits)
  have dko: "dom (level_kernel_options (blend_chain [d, p, s]))
        = dom (level_kernel_options d) \<union> dom (level_kernel_options p) \<union> dom (level_kernel_options s)"
    by (auto simp: dom_def ko split: option.splits)
  have dkm: "dom (level_ks_meta (blend_chain [d, p, s]))
        = dom (level_ks_meta d) \<union> dom (level_ks_meta p) \<union> dom (level_ks_meta s)"
    by (auto simp: dom_def km split: option.splits)
  have sko: "level_kernel_options (blend_chain (chain @ [l])) k =
        (case level_kernel_options l k of
           Some v \<Rightarrow> Some v
         | None \<Rightarrow> level_kernel_options (blend_chain chain) k)"
    by (simp add: blend_chain_def blend_level_def merge_by_key_def split: option.splits)
  have skm: "level_ks_meta (blend_chain (chain @ [l])) k =
        (case level_ks_meta l k of
           Some v \<Rightarrow> Some v
         | None \<Rightarrow> level_ks_meta (blend_chain chain) k)"
    by (simp add: blend_chain_def blend_level_def merge_by_key_def split: option.splits)
  show ?thesis
    using c f t ko km dko dkm sko skm by blast
qed

theorem system_fields_witness:
  "from_datastruct [(''name'', PyStr ''node1''), (''profile'', PyStr ''web''),
                    (''kernel_options'', PyStr ''ksdevice=eth0''), (''ks_meta'', PyStr ''tree=http://x'')]
     blank_System
     = Inr \<lparr>name = PyStr ''node1'', profile = PyStr ''web'',
            kernel_options = PyStr ''ksdevice=eth0'', ks_meta = PyStr ''tree=http://x''\<rparr>
   \<and> map_of [(''name'', PyStr ''node1''), (''profile'', PyStr ''web''),
              (''kernel_options'', PyStr ''ksdevice=eth0''), (''ks_meta'', PyStr ''tree=http://x'')]
        ''ks_meta'' = Some (PyStr ''tree=http://x'')
   \<and> level_ks_meta (blend_chain
        [\<lparr>level_kernel_options = [''noapic'' \<mapsto> PyNone],
          level_ks_meta = [''tree'' \<mapsto> PyStr ''old'', ''lang'' \<mapsto> PyStr ''en'']\<rparr>,
         \<lparr>level_kernel_options = Map.empty, level_ks_meta = [''tree'' \<mapsto> PyStr ''new'']\<rparr>,
         \<lparr>level_kernel_options = [''ksdevice'' \<mapsto> PyStr ''eth0''],
          level_ks_meta = [''role'' \<mapsto> PyStr ''db'']\<rparr>]) ''tree'' = Some (PyStr ''new'')"
proof -
  let ?seed = "[(''name'', PyStr ''node1''), (''profile'', PyStr ''web''),
                (''kernel_options'', PyStr ''ksdevice=eth0''), (''ks_meta'', PyStr ''tree=http://x'')]"
  let ?s' = "\<lparr>name = PyStr ''node1'', profile = PyStr ''web'',
            kernel_options = PyStr ''ksdevice=eth0'', ks_meta = PyStr ''tree=http://x''\<rparr>"
  let ?d = "\<lparr>level_kernel_options = [''noapic'' \<mapsto> PyNone],
          level_ks_meta = [''tree'' \<mapsto> PyStr ''old'', ''lang'' \<mapsto> PyStr ''en'']\<rparr>"
  let ?p = "\<lparr>level_kernel_options = Map.empty, level_ks_meta = [''tree'' \<mapsto> PyStr ''new'']\<rparr>"
  let ?s = "\<lparr>level_kernel_options = [''ksdevice'' \<mapsto> PyStr ''eth0''],
          level_ks_meta = [''role'' \<mapsto> PyStr ''db'']\<rparr>"
  have a: "from_datastruct ?seed blank_System = Inr ?s'"
    by (simp add: from_datastruct_def bind_err_def getitem_def blank_System_def)
  note t = system_fields [of blank_System ?seed ?s' ?d ?p ?s "''tree''" "[?d]" ?p]
  from t [THEN conjunct2, THEN conjunct2, THEN conjunct1, THEN mp, OF a]
  have b: "map_of ?seed ''ks_meta'' = Some (PyStr ''tree=http://x'')" by simp
  from t [THEN conjunct2, THEN conjunct2, THEN conjunct2, THEN conjunct2, THEN conjunct2,
          THEN conjunct2, THEN conjunct1]
  have c: "level_ks_meta (blend_chain [?d, ?p, ?s]) ''tree'' = Some (PyStr ''new'')" by simp
  from a b c show ?thesis by blast
qed

end
